theory Spec2Isabelle
  imports Complex_Main "HOL-Library.List_Lexorder" "HOL-Library.Product_Lexorder"
begin

section \<open>Strings of the Python runtime\<close>

text \<open>
  A Python \<open>str\<close> is a sequence of Unicode code points; \<open>len\<close> counts code points and
  comparison is lexicographic on them. A string is therefore a list of natural numbers,
  ordered by the lexicographic order of lists. ASCII literals of the source are written
  \<open>asc ''...''\<close>; literals with Thai letters or emoji are written as code point lists.
\<close>

type_synonym str = "nat list"

definition asc :: "string \<Rightarrow> str" where
  "asc s = map of_char s"

text \<open>
  The character tables of the interpreter that the code reads through \<open>str.lower\<close>,
  \<open>\d\<close> and \<open>\w\<close> are not part of the repository; they are a parameter of the model.
  The whitespace table (\<open>str.isspace\<close>, \<open>str.strip\<close>, \<open>str.split\<close>, \<open>\s\<close>) is small and
  is written out.
\<close>

record runtime =
  str_lower :: "str \<Rightarrow> str"
  is_digit :: "nat \<Rightarrow> bool"
  is_word :: "nat \<Rightarrow> bool"

definition is_space :: "nat \<Rightarrow> bool" where
  "is_space c \<longleftrightarrow>
     c \<in> set [9, 10, 11, 12, 13, 28, 29, 30, 31, 32, 133, 160, 5760, 8192, 8193, 8194,
                8195, 8196, 8197, 8198, 8199, 8200, 8201, 8202, 8232, 8233, 8239, 8287,
                12288]"

text \<open>The tables restricted to ASCII, where they agree with CPython; used to run the model.\<close>

definition ascii_lower :: "str \<Rightarrow> str" where
  "ascii_lower s = map (\<lambda>c. if 65 \<le> c \<and> c \<le> 90 then c + 32 else c) s"

definition ascii_digit :: "nat \<Rightarrow> bool" where
  "ascii_digit c \<longleftrightarrow> 48 \<le> c \<and> c \<le> 57"

definition ascii_word :: "nat \<Rightarrow> bool" where
  "ascii_word c \<longleftrightarrow>
     (48 \<le> c \<and> c \<le> 57) \<or> (65 \<le> c \<and> c \<le> 90) \<or> c = 95 \<or> (97 \<le> c \<and> c \<le> 122)"

definition ascii_rt :: runtime where
  "ascii_rt = \<lparr>str_lower = ascii_lower, is_digit = ascii_digit, is_word = ascii_word\<rparr>"

definition strip :: "str \<Rightarrow> str" where
  "strip s = rev (dropWhile is_space (rev (dropWhile is_space s)))"

text \<open>\<open>sep.join(parts)\<close>.\<close>

fun join :: "str \<Rightarrow> str list \<Rightarrow> str" where
  "join sep [] = []"
| "join sep [p] = p"
| "join sep (p # q # ps) = p @ sep @ join sep (q # ps)"

text \<open>\<open>needle in haystack\<close> for strings.\<close>

fun contains :: "str \<Rightarrow> str \<Rightarrow> bool" where
  "contains needle [] = (needle = [])"
| "contains needle (c # cs) = (take (length needle) (c # cs) = needle \<or> contains needle cs)"

text \<open>
  \<open>sorted(xs, key=key, reverse=True)\<close>: CPython reverses the list, sorts it stably in
  ascending key order and reverses the result, so elements with equal keys keep their order.
\<close>

definition sorted_reverse :: "('a \<Rightarrow> 'k::linorder) \<Rightarrow> 'a list \<Rightarrow> 'a list" where
  "sorted_reverse key xs = rev (sort_key key (rev xs))"


section \<open>Intent priority and the primary intent (chunking.py)\<close>

definition INTENT_PRIORITY :: "(str \<times> nat) list" where
  "INTENT_PRIORITY =
     [(asc ''troubleshooting'', 5), (asc ''safety'', 5), (asc ''installation'', 4),
      (asc ''financial'', 3), (asc ''identity'', 3), (asc ''reference'', 2),
      (asc ''general'', 1)]"

text \<open>\<open>_INTENT_PRIORITY.get(x, 0)\<close>.\<close>

definition intent_priority :: "str \<Rightarrow> nat" where
  "intent_priority x = (case map_of INTENT_PRIORITY x of Some p \<Rightarrow> p | None \<Rightarrow> 0)"

definition select_primary_intent :: "str list \<Rightarrow> str" where
  "select_primary_intent intents =
     (if intents = [] then asc ''general''
      else hd (sorted_reverse (\<lambda>x. (intent_priority x, x)) intents))"


section \<open>Regular expressions of the \<open>re\<close> module\<close>

text \<open>
  The patterns of the source are built from character classes, sequence, alternation,
  greedy and lazy repetition of a class, optional parts and capture groups. \<open>rmatch\<close> lists
  the ways a pattern matches a prefix of a string in the order in which a backtracking
  matcher tries them (with the captured groups and the rest of the string), so its first
  element is the match that \<open>re\<close> reports. None of the patterns used with \<open>re.sub\<close> matches
  the empty string; \<open>re_scan\<close> treats an empty match as no match.
\<close>

datatype cls =
    Lit nat
  | OneOf "nat list"
  | Range nat nat
  | Space
  | Digit
  | Word
  | Dot
  | DotAll
  | Not cls
  | Or cls cls

fun cls_match :: "runtime \<Rightarrow> cls \<Rightarrow> nat \<Rightarrow> bool" where
  "cls_match rt (Lit a) c = (c = a)"
| "cls_match rt (OneOf as) c = (c \<in> set as)"
| "cls_match rt (Range lo hi) c = (lo \<le> c \<and> c \<le> hi)"
| "cls_match rt Space c = is_space c"
| "cls_match rt Digit c = is_digit rt c"
| "cls_match rt Word c = is_word rt c"
| "cls_match rt Dot c = (c \<noteq> 10)"
| "cls_match rt DotAll c = True"
| "cls_match rt (Not k) c = (\<not> cls_match rt k c)"
| "cls_match rt (Or k l) c = (cls_match rt k c \<or> cls_match rt l c)"

datatype rx =
    Eps
  | Ch cls
  | Seq rx rx
  | Alt rx rx
  | Star cls
  | LazyStar cls
  | Opt rx
  | Grp rx

fun star_greedy :: "runtime \<Rightarrow> cls \<Rightarrow> str \<Rightarrow> str list" where
  "star_greedy rt k [] = [[]]"
| "star_greedy rt k (c # cs) =
     (if cls_match rt k c then star_greedy rt k cs @ [c # cs] else [c # cs])"

fun star_lazy :: "runtime \<Rightarrow> cls \<Rightarrow> str \<Rightarrow> str list" where
  "star_lazy rt k [] = [[]]"
| "star_lazy rt k (c # cs) =
     (c # cs) # (if cls_match rt k c then star_lazy rt k cs else [])"

fun rmatch :: "runtime \<Rightarrow> rx \<Rightarrow> str \<Rightarrow> (str list \<times> str) list" where
  "rmatch rt Eps s = [([], s)]"
| "rmatch rt (Ch k) s =
     (case s of [] \<Rightarrow> [] | c # cs \<Rightarrow> if cls_match rt k c then [([], cs)] else [])"
| "rmatch rt (Seq a b) s =
     concat (map (\<lambda>(g1, r1). map (\<lambda>(g2, r2). (g1 @ g2, r2)) (rmatch rt b r1)) (rmatch rt a s))"
| "rmatch rt (Alt a b) s = rmatch rt a s @ rmatch rt b s"
| "rmatch rt (Star k) s = map (\<lambda>r. ([], r)) (star_greedy rt k s)"
| "rmatch rt (LazyStar k) s = map (\<lambda>r. ([], r)) (star_lazy rt k s)"
| "rmatch rt (Opt a) s = rmatch rt a s @ [([], s)]"
| "rmatch rt (Grp a) s = map (\<lambda>(g, r). (g @ [take (length s - length r) s], r)) (rmatch rt a s)"

definition re_match :: "runtime \<Rightarrow> rx \<Rightarrow> str \<Rightarrow> (str list \<times> nat) option" where
  "re_match rt r s =
     (case rmatch rt r s of [] \<Rightarrow> None | (gs, rest) # _ \<Rightarrow> Some (gs, length s - length rest))"

fun re_search :: "runtime \<Rightarrow> rx \<Rightarrow> str \<Rightarrow> bool" where
  "re_search rt r [] = (re_match rt r [] \<noteq> None)"
| "re_search rt r (c # cs) = (re_match rt r (c # cs) \<noteq> None \<or> re_search rt r cs)"

datatype piece = Txt nat | Mat "str list" str

fun re_scan :: "runtime \<Rightarrow> rx \<Rightarrow> str \<Rightarrow> piece list" where
  "re_scan rt r [] = []"
| "re_scan rt r (c # cs) =
     (case re_match rt r (c # cs) of
        None \<Rightarrow> Txt c # re_scan rt r cs
      | Some (gs, n) \<Rightarrow>
          if n = 0 then Txt c # re_scan rt r cs
          else Mat gs (take n (c # cs)) # re_scan rt r (drop (n - 1) cs))"

definition re_sub :: "runtime \<Rightarrow> rx \<Rightarrow> (str list \<Rightarrow> str \<Rightarrow> str) \<Rightarrow> str \<Rightarrow> str" where
  "re_sub rt r repl s =
     concat (map (\<lambda>p. case p of Txt c \<Rightarrow> [c] | Mat gs w \<Rightarrow> repl gs w) (re_scan rt r s))"

definition case_variants :: "nat \<Rightarrow> nat list" where
  "case_variants c =
     (if 65 \<le> c \<and> c \<le> 90 then [c, c + 32]
      else if 97 \<le> c \<and> c \<le> 122 then [c, c - 32] else [c])
     @ (if c = 83 \<or> c = 115 then [383]
        else if c = 75 \<or> c = 107 then [8490]
        else if c = 73 \<or> c = 105 then [304, 305] else [])"

fun lit :: "str \<Rightarrow> rx" where
  "lit [] = Eps"
| "lit [c] = Ch (Lit c)"
| "lit (c # cs) = Seq (Ch (Lit c)) (lit cs)"

fun lit_ci :: "str \<Rightarrow> rx" where
  "lit_ci [] = Eps"
| "lit_ci [c] = Ch (OneOf (case_variants c))"
| "lit_ci (c # cs) = Seq (Ch (OneOf (case_variants c))) (lit_ci cs)"

fun seqs :: "rx list \<Rightarrow> rx" where
  "seqs [] = Eps"
| "seqs [r] = r"
| "seqs (r # rs) = Seq r (seqs rs)"

fun alts :: "rx list \<Rightarrow> rx" where
  "alts [] = Eps"
| "alts [r] = r"
| "alts (r # rs) = Alt r (alts rs)"

definition plus :: "cls \<Rightarrow> rx" where
  "plus k = Seq (Ch k) (Star k)"


section \<open>Canonical document identifiers (rag.py and vector_store.py)\<close>

text \<open>
  \<open>sanitize_doc_id\<close> is defined twice, in rag.py and in vector_store.py; both copies are
  modelled. The last substitution deletes every character outside
  \<open>[a-z0-9_\u0E00-\u0E7F-]\<close>.
\<close>

definition DOC_ID_KEEP :: cls where
  "DOC_ID_KEEP = Or (Range 97 122) (Or (Range 48 57) (Or (Lit 95) (Or (Range 3584 3711) (Lit 45))))"

definition rag_sanitize_doc_id :: "runtime \<Rightarrow> str \<Rightarrow> str" where
  "rag_sanitize_doc_id rt doc_id =
     (if doc_id = [] then []
      else
        (let d1 = strip (str_lower rt doc_id);
             d2 = re_sub rt (plus Space) (\<lambda>gs w. asc ''_'') d1
         in re_sub rt (Ch (Not DOC_ID_KEEP)) (\<lambda>gs w. []) d2))"

definition vs_sanitize_doc_id :: "runtime \<Rightarrow> str \<Rightarrow> str" where
  "vs_sanitize_doc_id rt doc_id =
     (if doc_id = [] then []
      else
        (let d1 = strip (str_lower rt doc_id);
             d2 = re_sub rt (plus Space) (\<lambda>gs w. asc ''_'') d1
         in re_sub rt (Ch (Not DOC_ID_KEEP)) (\<lambda>gs w. []) d2))"


section \<open>Retrieved documents\<close>

text \<open>
  A retrieved \<open>Document\<close> has its text and a metadata dictionary. The keys that the
  retrieval and answer code reads are the fields below; \<open>None\<close> is a missing key (or a
  stored \<open>None\<close>).

  Confidence scores are Python floats. A float is a finite number, an infinity or NaN;
  finite floats are taken as real numbers and their arithmetic as real arithmetic, without
  rounding. The comparisons of the source compare a score with a finite number: every
  such comparison is false for NaN.
\<close>

datatype pyfloat = Fin real | PosInf | NegInf | NaN

text \<open>\<open>x < c\<close> and \<open>x >= c\<close> for a float \<open>x\<close> and a finite \<open>c\<close>.\<close>

fun float_less :: "pyfloat \<Rightarrow> real \<Rightarrow> bool" where
  "float_less (Fin x) c = (x < c)"
| "float_less PosInf c = False"
| "float_less NegInf c = True"
| "float_less NaN c = False"


record document =
  page_content :: str
  md_doc_id :: "str option"
  md_source :: "str option"
  md_doc_type :: "str option"
  md_page :: "int option option"
  md_chunk_id :: "str option"
  md_ai_score :: "pyfloat option"
  md_keyword_score :: "real option"
  md_raw_score :: "pyfloat option"
  md_html_content :: "str option"
  md_markdown_content :: "str option"
  md_category :: "str option"
  md_role :: "str option"


section \<open>The relevance gate (rag.py)\<close>

definition MIN_SCORE_THRESHOLD :: real where
  "MIN_SCORE_THRESHOLD = 0.25"

definition MIN_KEYWORD_OVERLAP :: nat where
  "MIN_KEYWORD_OVERLAP = 1"

text \<open>\<open>s.split()\<close>: the maximal runs of non-whitespace characters; \<open>cur\<close> is the run being read.\<close>

fun split_from :: "str \<Rightarrow> str \<Rightarrow> str list" where
  "split_from cur [] = (if cur = [] then [] else [cur])"
| "split_from cur (c # cs) =
     (if is_space c then (if cur = [] then split_from [] cs else cur # split_from [] cs)
      else split_from (cur @ [c]) cs)"

definition split :: "str \<Rightarrow> str list" where
  "split s = split_from [] s"

definition STOPWORDS :: "str list" where
  "STOPWORDS =
     [[3588, 3639, 3629], [3648, 3611, 3655, 3609], [3629, 3618, 3641, 3656], [3592, 3632],
      [3652, 3604, 3657], [3607, 3637, 3656], [3595, 3638, 3656, 3591], [3629, 3633, 3609],
      [3586, 3629, 3591], asc ''what'', asc ''is'', asc ''are'', asc ''the'', asc ''a'',
      asc ''an'', [3588, 3619, 3633, 3610], [3588, 3656, 3632]]"

text \<open>
  The token sets of the source are the sets of the lists below; the size of the
  intersection is the number of distinct query tokens that occur among the text tokens.
\<close>

definition keyword_overlap_count :: "runtime \<Rightarrow> str \<Rightarrow> str \<Rightarrow> nat" where
  "keyword_overlap_count rt query text =
     (let q_clean = str_lower rt (re_sub rt (Ch (Not (Or Word Space))) (\<lambda>gs w. []) query);
          t_clean = str_lower rt (re_sub rt (Ch (Not (Or Word Space))) (\<lambda>gs w. []) text);
          q_tokens = filter (\<lambda>w. w \<notin> set STOPWORDS) (remdups (split q_clean));
          t_tokens = split t_clean
      in if q_tokens = [] then 0
         else length (filter (\<lambda>w. w \<in> set t_tokens) q_tokens))"

text \<open>\<open>d.metadata.get("ai_score", 0.0)\<close>.\<close>

definition ai_score :: "document \<Rightarrow> pyfloat" where
  "ai_score d = (case md_ai_score d of Some x \<Rightarrow> x | None \<Rightarrow> Fin 0)"

definition passes_gate :: "runtime \<Rightarrow> str \<Rightarrow> real \<Rightarrow> document \<Rightarrow> bool" where
  "passes_gate rt query min_score d =
     (if float_less (ai_score d) min_score then False
      else if 10 < length query
              \<and> keyword_overlap_count rt query (page_content d) < MIN_KEYWORD_OVERLAP
              \<and> float_less (ai_score d) 0.75
           then False
      else True)"

definition filter_relevant_docs :: "runtime \<Rightarrow> str \<Rightarrow> document list \<Rightarrow> real \<Rightarrow> document list" where
  "filter_relevant_docs rt query docs min_score = filter (passes_gate rt query min_score) docs"

definition blank_doc :: document where
  "blank_doc = \<lparr>page_content = [], md_doc_id = None, md_source = None, md_doc_type = None,
     md_page = None, md_chunk_id = None, md_ai_score = None, md_keyword_score = None,
     md_raw_score = None, md_html_content = None, md_markdown_content = None,
     md_category = None, md_role = None\<rparr>"


section \<open>Chunk construction (chunking.py)\<close>

definition MAX_CHUNK_CHARS :: nat where
  "MAX_CHUNK_CHARS = 1200"

definition MAX_INTENTS :: nat where
  "MAX_INTENTS = 5"

text \<open>\<open>str(n)\<close> for a natural number, as used by the f-strings of the source.\<close>

function show_nat :: "nat \<Rightarrow> str" where
  "show_nat n = (if n < 10 then [48 + n] else show_nat (n div 10) @ [48 + n mod 10])"
  by pat_completeness auto
termination
  by (relation "measure id") auto

definition show_int :: "int \<Rightarrow> str" where
  "show_int i = (if i < 0 then 45 # show_nat (nat (- i)) else show_nat (nat i))"

text \<open>\<open>x or default\<close> for an optional string: \<open>None\<close> and the empty string are falsy.\<close>

definition or_else :: "str option \<Rightarrow> str \<Rightarrow> str" where
  "or_else x d = (case x of None \<Rightarrow> d | Some s \<Rightarrow> if s = [] then d else s)"

definition KW_INSTALL :: rx where
  "KW_INSTALL =
     alts [lit [3623, 3636, 3608, 3637],
      lit [3586, 3633, 3657, 3609, 3605, 3629, 3609],
      seqs [lit (asc ''how''), Star Space, lit (asc ''to'')],
      lit (asc ''install''),
      lit (asc ''setup''),
      lit [3585, 3634, 3619, 3605, 3636, 3604, 3605, 3633, 3657, 3591],
      lit [3623, 3636, 3608, 3637, 3585, 3634, 3619]]"

definition KW_TROUBLESHOOT :: rx where
  "KW_TROUBLESHOOT =
     alts [lit [3649, 3585, 3657, 3611, 3633, 3597, 3627, 3634],
      lit (asc ''error''),
      lit (asc ''fail''),
      seqs [lit (asc ''not''), Star Space, lit (asc ''working'')],
      lit [3648, 3626, 3637, 3618],
      lit [3595, 3656, 3629, 3617],
      lit (asc ''troubleshoot'')]"

definition KW_SAFETY :: rx where
  "KW_SAFETY =
     alts [lit [3588, 3623, 3634, 3617, 3611, 3621, 3629, 3604, 3616, 3633, 3618],
      lit (asc ''warning''),
      lit (asc ''danger''),
      lit [3619, 3632, 3623, 3633, 3591],
      lit [3627, 3657, 3634, 3617],
      lit [3629, 3633, 3609, 3605, 3619, 3634, 3618]]"

definition KW_REF :: rx where
  "KW_REF =
     alts [lit [3588, 3623, 3634, 3617, 3627, 3617, 3634, 3618],
      lit [3588, 3639, 3629],
      lit (asc ''definition''),
      lit (asc ''spec''),
      lit [3626, 3648, 3611, 3588],
      lit [3588, 3640, 3603, 3621, 3633, 3585, 3625, 3603, 3632]]"

definition KW_FINANCE :: rx where
  "KW_FINANCE =
     alts [lit [3619, 3634, 3588, 3634],
      lit [3588, 3656, 3634, 3651, 3594, 3657, 3592, 3656, 3634, 3618],
      lit [3648, 3591, 3636, 3609],
      lit [3610, 3634, 3607],
      lit (asc ''cost''),
      lit (asc ''price'')]"

definition KW_IDENTITY :: rx where
  "KW_IDENTITY =
     alts [lit [3612, 3641, 3657],
      lit [3594, 3639, 3656, 3629],
      lit [3621, 3591, 3609, 3634, 3617],
      lit [3629, 3609, 3640, 3617, 3633, 3605, 3636],
      lit (asc ''who''),
      lit (asc ''name''),
      lit (asc ''signature'')]"

text \<open>\<open>_RE_QNA\<close>, compiled with \<open>re.IGNORECASE\<close>.\<close>

definition RE_QNA :: rx where
  "RE_QNA =
     seqs [alts [lit_ci [3606, 3634, 3617], lit_ci (asc ''q''), lit_ci (asc ''question'')],
           Star Space, Ch (OneOf [58, 45])]"

definition RE_ZERO_WIDTH :: rx where
  "RE_ZERO_WIDTH = Ch (OneOf [8203, 8204, 8205, 65279])"

definition RE_MULTI_NEWLINE :: rx where
  "RE_MULTI_NEWLINE = seqs [Ch (Lit 10), Ch (Lit 10), Ch (Lit 10), Star (Lit 10)]"

definition RE_MULTI_SPACE :: rx where
  "RE_MULTI_SPACE = seqs [Ch (Lit 32), Ch (Lit 32), Star (Lit 32)]"

definition MEANINGFUL_CHAR :: cls where
  "MEANINGFUL_CHAR = Or Word (Range 3584 3711)"

definition RE_MEANINGFUL :: rx where
  "RE_MEANINGFUL =
     seqs [Ch MEANINGFUL_CHAR, Ch MEANINGFUL_CHAR, Ch MEANINGFUL_CHAR, Star MEANINGFUL_CHAR]"

text \<open>
  The blocks of a document bundle, with the fields that chunk construction reads;
  \<open>tb_heading_level\<close> and \<open>tb_block_type\<close> are the entries of the \<open>extra\<close> dictionary.
\<close>

record text_block =
  tb_doc_id :: str
  tb_page :: int
  tb_section :: "str option"
  tb_content :: str
  tb_doc_type :: "str option"
  tb_heading_level :: "str option"
  tb_block_type :: "str option"

text \<open>
  Of the semantic metadata, the intent list and the primary intent are modelled; the
  answer scope, the entities and the two flags \<open>has_numbers\<close> and \<open>has_names\<close> are computed
  from the same text by further pattern searches and are read by no function of the model.
\<close>

record semantic_meta =
  intent :: "str list"
  primary_intent :: str

definition extract_intent_and_entities :: "runtime \<Rightarrow> str \<Rightarrow> str \<Rightarrow> semantic_meta" where
  "extract_intent_and_entities rt text section =
     (let combined = str_lower rt text @ asc '' '' @ str_lower rt section;
          intent_scores =
            (if re_search rt KW_TROUBLESHOOT combined then [(asc ''troubleshooting'', 3::nat)] else [])
            @ (if re_search rt KW_SAFETY combined then [(asc ''safety'', 3)] else [])
            @ (if re_search rt KW_INSTALL combined then [(asc ''installation'', 2)] else [])
            @ (if re_search rt KW_IDENTITY combined then [(asc ''identity'', 2)] else [])
            @ (if re_search rt KW_FINANCE combined then [(asc ''financial'', 2)] else [])
            @ (if re_search rt KW_REF combined then [(asc ''reference'', 1)] else []);
          intents = take MAX_INTENTS
            (if intent_scores \<noteq> [] then map fst (sorted_reverse snd intent_scores)
             else [asc ''general''])
      in \<lparr>intent = intents, primary_intent = select_primary_intent intents\<rparr>)"

definition normalize_whitespace :: "runtime \<Rightarrow> str \<Rightarrow> str" where
  "normalize_whitespace rt text =
     (if text = [] then []
      else
        (let s1 = re_sub rt RE_ZERO_WIDTH (\<lambda>gs w. []) text;
             s2 = map (\<lambda>c. if c = 160 then 32 else c) s1;
             s3 = re_sub rt RE_MULTI_NEWLINE (\<lambda>gs w. [10, 10]) s2;
             s4 = re_sub rt RE_MULTI_SPACE (\<lambda>gs w. [32]) s3
         in strip s4))"

definition has_meaningful_text :: "runtime \<Rightarrow> str \<Rightarrow> bool" where
  "has_meaningful_text rt s = (if s = [] then False else re_search rt RE_MEANINGFUL (strip s))"

record text_group =
  g_blocks :: "text_block list"
  g_section :: "str option"
  g_primary_intent :: str

text \<open>
  The state of the grouping loop. \<open>current_intent_set\<close> is a Python set; it is kept as
  the list of its elements, and \<open>list(current_intent_set)\<close> is \<open>order\<close> applied to that list:
  the iteration order of a set of strings changes from one interpreter run to the next,
  so \<open>order\<close> is a parameter, and it returns the same elements in some order.
\<close>

record group_state =
  chunks :: "text_group list"
  current_chunk_blocks :: "text_block list"
  current_length :: nat
  current_section :: "str option"
  current_intent_set :: "str list"

definition block_meta :: "runtime \<Rightarrow> text_block \<Rightarrow> semantic_meta" where
  "block_meta rt block =
     extract_intent_and_entities rt (normalize_whitespace rt (tb_content block))
       (or_else (tb_section block) [])"

definition high_priority :: "str \<Rightarrow> bool" where
  "high_priority i \<longleftrightarrow> i \<in> set [asc ''troubleshooting'', asc ''safety'']"

definition close_group :: "(str list \<Rightarrow> str list) \<Rightarrow> group_state \<Rightarrow> text_group" where
  "close_group order st =
     \<lparr>g_blocks = current_chunk_blocks st, g_section = current_section st,
      g_primary_intent = select_primary_intent (order (current_intent_set st))\<rparr>"

definition group_step ::
  "runtime \<Rightarrow> (str list \<Rightarrow> str list) \<Rightarrow> group_state \<Rightarrow> text_block \<Rightarrow> group_state" where
  "group_step rt order st block =
     (let content = normalize_whitespace rt (tb_content block) in
      if content = [] \<or> \<not> has_meaningful_text rt content then st
      else
        (let meta = block_meta rt block;
             block_intent_set = remdups (intent meta);
             block_len = length content;
             is_qna = re_search rt RE_QNA content;
             is_new_section = (tb_section block \<noteq> current_section st
                               \<and> current_chunk_blocks st \<noteq> []);
             is_major_heading = (tb_heading_level block = Some (asc ''H1''));
             is_too_long = (current_length st + block_len > MAX_CHUNK_CHARS);
             intent_changed =
               (current_chunk_blocks st \<noteq> []
                \<and> ((current_intent_set st \<noteq> [] \<and> block_intent_set \<noteq> []
                     \<and> set (current_intent_set st) \<inter> set block_intent_set = {})
                    \<or> (high_priority (primary_intent (block_meta rt (last (current_chunk_blocks st))))
                        \<and> \<not> high_priority (primary_intent meta))));
             should_break = (is_new_section \<or> is_too_long \<or> is_major_heading
                             \<or> intent_changed \<or> is_qna);
             st1 = (if should_break \<and> current_chunk_blocks st \<noteq> []
                    then st\<lparr>chunks := chunks st @ [close_group order st],
                            current_chunk_blocks := [], current_length := 0,
                            current_intent_set := []\<rparr>
                    else st)
         in st1\<lparr>current_chunk_blocks := current_chunk_blocks st1 @ [block],
                current_length := current_length st1 + block_len,
                current_section := tb_section block,
                current_intent_set :=
                  current_intent_set st1
                  @ filter (\<lambda>i. i \<notin> set (current_intent_set st1)) block_intent_set\<rparr>))"

definition group_blocks_semantically ::
  "runtime \<Rightarrow> (str list \<Rightarrow> str list) \<Rightarrow> text_block list \<Rightarrow> text_group list" where
  "group_blocks_semantically rt order blocks =
     (let st = foldl (group_step rt order)
                 \<lparr>chunks = [], current_chunk_blocks = [], current_length = 0,
                  current_section = None, current_intent_set = []\<rparr> blocks
      in chunks st @ (if current_chunk_blocks st \<noteq> [] then [close_group order st] else []))"


text \<open>
  The metadata of a text chunk (without the semantic fields left out above) and of a
  table chunk (without the sanitised HTML and the capped markdown, which enter no content).
\<close>

record text_meta =
  tm_doc_id :: str
  tm_page :: "int option"
  tm_pages :: "int list"
  tm_section :: str
  tm_block_types :: "str list"
  tm_dominant_block_type :: str
  tm_char_count :: nat
  tm_intent :: "str list"
  tm_primary_intent :: str

record table_meta =
  tbm_table_id :: str
  tbm_doc_id :: str
  tbm_page :: int
  tbm_columns :: "str list"
  tbm_has_summary :: bool
  tbm_category :: str
  tbm_role :: str
  tbm_intent :: "str list"
  tbm_primary_intent :: str

datatype metadata = TextMeta text_meta | TableMeta table_meta

record chunk =
  c_id :: str
  c_doc_id :: str
  c_doc_type :: str
  c_source :: str
  c_page :: "int option"
  c_content :: str
  c_metadata :: metadata

definition SAFETY_TAG :: str where
  "SAFETY_TAG = [9888, 65039, 32, 91, 3586, 3657, 3629, 3588, 3623, 3619, 3619, 3632, 3623,
                 3633, 3591, 93]"

definition TROUBLESHOOTING_TAG :: str where
  "TROUBLESHOOTING_TAG = [128295, 32, 91, 3585, 3634, 3619, 3649, 3585, 3657, 3611, 3633, 3597,
                          3627, 3634, 93]"

definition TEXT_TRUNCATION_MARKER :: str where
  "TEXT_TRUNCATION_MARKER = [10, 46, 46, 46, 91, 3605, 3633, 3604, 3607, 3629, 3609, 3648, 3609,
                             3639, 3657, 3629, 3627, 3634, 93, 46, 46, 46]"


text \<open>The safety limit applied to the assembled content of a text chunk and of a table chunk.\<close>

definition truncate_content :: "str \<Rightarrow> str \<Rightarrow> str" where
  "truncate_content marker full_content =
     (if length full_content > MAX_CHUNK_CHARS
      then take (MAX_CHUNK_CHARS - 50) full_content @ marker
      else full_content)"

definition display_section :: "text_group \<Rightarrow> str" where
  "display_section grp =
     (let section = or_else (g_section grp) (asc ''General'')
      in if length section > 50 then take 47 section @ asc ''...'' else section)"

definition block_type :: "runtime \<Rightarrow> text_block \<Rightarrow> str" where
  "block_type rt b = str_lower rt (case tb_block_type b of None \<Rightarrow> asc ''normal'' | Some t \<Rightarrow> t)"

definition block_parts :: "runtime \<Rightarrow> text_block \<Rightarrow> str list" where
  "block_parts rt b =
     (if block_type rt b = asc ''warning'' then [[9888, 65039]]
      else if block_type rt b = asc ''note'' then [[8505, 65039]]
      else [])
     @ [tb_content b]"

definition group_meta :: "runtime \<Rightarrow> text_group \<Rightarrow> semantic_meta" where
  "group_meta rt grp =
     extract_intent_and_entities rt (join [10] (map tb_content (g_blocks grp)))
       (display_section grp)"

text \<open>The content of a grp before the safety limit (\<open>full_content\<close> before truncation).\<close>

definition assembled_content :: "runtime \<Rightarrow> text_group \<Rightarrow> str" where
  "assembled_content rt grp =
     (let semantic = group_meta rt grp;
          content_parts =
            (if asc ''safety'' \<in> set (intent semantic) then [SAFETY_TAG]
             else if asc ''troubleshooting'' \<in> set (intent semantic) then [TROUBLESHOOTING_TAG]
             else [])
            @ concat (map (block_parts rt) (g_blocks grp))
      in join [10] content_parts)"

definition format_chunk_content :: "runtime \<Rightarrow> text_group \<Rightarrow> str \<times> text_meta" where
  "format_chunk_content rt grp =
     (let blocks = g_blocks grp;
          section = display_section grp;
          doc_id = (case blocks of [] \<Rightarrow> asc ''unknown'' | b # _ \<Rightarrow> tb_doc_id b);
          semantic = group_meta rt grp;
          page_numbers = remdups (filter (\<lambda>p. p \<noteq> 0) (map tb_page blocks));
          block_types = remdups (filter (\<lambda>t. t \<noteq> []) (map (block_type rt) blocks));
          full_content = truncate_content TEXT_TRUNCATION_MARKER (assembled_content rt grp);
          dominant_type =
            (if asc ''warning'' \<in> set block_types then asc ''warning''
             else if asc ''step'' \<in> set block_types then asc ''step''
             else asc ''normal'')
      in (full_content,
          \<lparr>tm_doc_id = doc_id,
           tm_page = (if page_numbers = [] then None else Some (Min (set page_numbers))),
           tm_pages = take 10 (sort page_numbers),
           tm_section = section,
           tm_block_types = take 5 (sort block_types),
           tm_dominant_block_type = dominant_type,
           tm_char_count = length full_content,
           tm_intent = intent semantic,
           tm_primary_intent = primary_intent semantic\<rparr>))"

text \<open>
  \<open>hashlib.md5(fingerprint.encode('utf-8', errors='ignore')).hexdigest()\<close> is the parameter
  \<open>md5\<close> of the model.
\<close>

definition semantic_fingerprint :: "str \<Rightarrow> text_meta \<Rightarrow> str" where
  "semantic_fingerprint content meta =
     content @ asc ''|'' @ tm_primary_intent meta @ asc ''|'' @ tm_section meta"

text \<open>The deduplication loop over the grps; \<open>seen\<close> is \<open>seen_hashes\<close>.\<close>

fun chunks_of_groups ::
  "runtime \<Rightarrow> (str \<Rightarrow> str) \<Rightarrow> str \<Rightarrow> str list \<Rightarrow> text_group list \<Rightarrow> chunk list" where
  "chunks_of_groups rt md5 doc_type seen [] = []"
| "chunks_of_groups rt md5 doc_type seen (grp # grps) =
     (let (content, meta) = format_chunk_content rt grp;
          content_hash = md5 (semantic_fingerprint content meta)
      in if strip content = [] then chunks_of_groups rt md5 doc_type seen grps
         else if content_hash \<in> set seen then chunks_of_groups rt md5 doc_type seen grps
         else \<lparr>c_id = tm_doc_id meta @ asc ''::'' @ take 8 content_hash,
               c_doc_id = tm_doc_id meta, c_doc_type = doc_type, c_source = asc ''text'',
               c_page = tm_page meta, c_content = content, c_metadata = TextMeta meta\<rparr>
              # chunks_of_groups rt md5 doc_type (content_hash # seen) grps)"

definition text_items_to_chunks ::
  "runtime \<Rightarrow> (str \<Rightarrow> str) \<Rightarrow> (str list \<Rightarrow> str list) \<Rightarrow> text_block list \<Rightarrow> chunk list" where
  "text_items_to_chunks rt md5 order texts =
     (let valid_blocks = filter (\<lambda>t. has_meaningful_text rt (tb_content t)) texts
      in if valid_blocks = [] then []
         else chunks_of_groups rt md5
                (case texts of [] \<Rightarrow> asc ''manual'' | t # _ \<Rightarrow> or_else (tb_doc_type t) (asc ''manual''))
                [] (group_blocks_semantically rt order valid_blocks))"















section \<open>The vector store and similarity search (vector_store.py)\<close>

text \<open>
  An exception is either the \<open>HTTPException\<close> that the code raises itself (status code and
  detail) or an exception raised by the storage client, of which the handler reads the
  message \<open>str(e)\<close> and whether it is an instance of \<open>ChromaInternalError\<close>.
\<close>

datatype error = HTTPException nat str | Raised str bool

fun error_msg :: "error \<Rightarrow> str" where
  "error_msg (HTTPException code detail) = show_nat code @ asc '': '' @ detail"
| "error_msg (Raised msg internal) = msg"

fun is_internal_error :: "error \<Rightarrow> bool" where
  "is_internal_error (HTTPException code detail) = False"
| "is_internal_error (Raised msg internal) = internal"

text \<open>
  The \<open>filter\<close> argument of a native search: an equality on each field that is present.
  \<open>None\<close> stands for \<open>where_filter = None\<close> and also for a search without a filter argument.
\<close>

record where_filter =
  w_doc_id :: "str option"
  w_source :: "str option"
  w_doc_type :: "str option"

definition empty_where :: where_filter where
  "empty_where = \<lparr>w_doc_id = None, w_source = None, w_doc_type = None\<rparr>"

text \<open>
  The Chroma client is outside the repository. A client is the result of its
  \<open>similarity_search(query, k, filter)\<close>: the ranked documents, or the exception it raises.
\<close>

type_synonym vectordb = "str \<Rightarrow> nat \<Rightarrow> where_filter option \<Rightarrow> error + document list"

text \<open>
  The process state that the search touches: the client cache \<open>_vectordb_cache\<close>, keyed by
  directory and collection name; the outcome of each construction \<open>Chroma(...)\<close>, numbered
  in the order of the calls, with the number of constructions made so far; and the record
  of the searches sent to a client.
\<close>

record world =
  cache :: "(str \<times> str) \<rightharpoonup> vectordb"
  chroma :: "nat \<Rightarrow> error + vectordb"
  constructed :: nat
  search_log :: "(str \<times> nat \<times> where_filter option) list"

definition CHROMA_DIR :: str where
  "CHROMA_DIR = asc ''chroma_db''"

definition COLLECTION_NAME :: str where
  "COLLECTION_NAME = asc ''documents''"

definition CONNECT_FAILED :: error where
  "CONNECT_FAILED = HTTPException 500
     [3652, 3617, 3656, 3626, 3634, 3617, 3634, 3619, 3606, 3648, 3594, 3639, 3656, 3629, 3617,
      3605, 3656, 3629, 32, 86, 101, 99, 116, 111, 114, 32, 68, 66, 32, 3652, 3604, 3657, 32,
      3650, 3611, 3619, 3604, 3605, 3619, 3623, 3592, 3626, 3629, 3610, 3585, 3634, 3619, 3605,
      3636, 3604, 3605, 3633, 3657, 3591]"

text \<open>
  \<open>get_vector_store\<close>. The cache key is the pair of its first two arguments (the model
  takes the directory as already resolved). A failed construction is tried a second time.
\<close>

definition get_vector_store ::
  "world \<Rightarrow> str \<times> str \<Rightarrow> bool \<Rightarrow> bool \<Rightarrow> (error + vectordb) \<times> world" where
  "get_vector_store w key force_recreate reload =
     (let should_reload = (force_recreate \<or> reload);
          w1 = (if should_reload \<and> key \<in> dom (cache w) then w\<lparr>cache := (cache w)(key := None)\<rparr>
                else w)
      in case (if force_recreate then None else cache w1 key) of
           Some vectordb \<Rightarrow> (Inr vectordb, w1)
         | None \<Rightarrow>
             (case chroma w1 (constructed w1) of
                Inr vectordb \<Rightarrow>
                  (Inr vectordb,
                   w1\<lparr>constructed := constructed w1 + 1, cache := (cache w1)(key \<mapsto> vectordb)\<rparr>)
              | Inl e \<Rightarrow>
                  (case chroma w1 (constructed w1 + 1) of
                     Inr vectordb \<Rightarrow>
                       (Inr vectordb,
                        w1\<lparr>constructed := constructed w1 + 2,
                           cache := (cache w1)(key \<mapsto> vectordb)\<rparr>)
                   | Inl e2 \<Rightarrow> (Inl CONNECT_FAILED, w1\<lparr>constructed := constructed w1 + 2\<rparr>))))"

text \<open>An optional list argument is truthy when it is a non-empty list.\<close>

definition truthy :: "'a list option \<Rightarrow> bool" where
  "truthy xs = (case xs of None \<Rightarrow> False | Some l \<Rightarrow> l \<noteq> [])"

definition elems :: "'a list option \<Rightarrow> 'a list" where
  "elems xs = (case xs of None \<Rightarrow> [] | Some l \<Rightarrow> l)"

definition python_filter_documents ::
  "runtime \<Rightarrow> document list \<Rightarrow> str list option \<Rightarrow> str list option \<Rightarrow> str list option
     \<Rightarrow> document list" where
  "python_filter_documents rt raw_docs doc_ids sources doc_types =
     (let sanitized_doc_ids = map (vs_sanitize_doc_id rt) (elems doc_ids)
      in filter (\<lambda>d.
           (sanitized_doc_ids = []
            \<or> (case md_doc_id d of None \<Rightarrow> False
                | Some found_id \<Rightarrow>
                    found_id \<noteq> [] \<and> vs_sanitize_doc_id rt found_id \<in> set sanitized_doc_ids))
           \<and> (\<not> truthy sources
               \<or> (case md_source d of None \<Rightarrow> False
                   | Some doc_source \<Rightarrow> doc_source \<noteq> [] \<and> doc_source \<in> set (elems sources)))
           \<and> (\<not> truthy doc_types
               \<or> (case md_doc_type d of None \<Rightarrow> False
                   | Some doc_type \<Rightarrow> doc_type \<noteq> [] \<and> doc_type \<in> set (elems doc_types))))
         raw_docs)"

text \<open>One call of \<open>vectordb.similarity_search\<close>, recorded in the log.\<close>

definition similarity_search ::
  "vectordb \<Rightarrow> world \<Rightarrow> str \<Rightarrow> nat \<Rightarrow> where_filter option
     \<Rightarrow> (error + document list) \<times> world" where
  "similarity_search vectordb w query k flt =
     (vectordb query k flt, w\<lparr>search_log := search_log w @ [(query, k, flt)]\<rparr>)"

text \<open>The filter that \<open>search_similar\<close> builds for the native search.\<close>

definition build_where_filter ::
  "runtime \<Rightarrow> str list option \<Rightarrow> str list option \<Rightarrow> str list option \<Rightarrow> where_filter option" where
  "build_where_filter rt doc_ids sources doc_types =
     (let sanitized_doc_ids =
            (if truthy doc_ids
             then map (vs_sanitize_doc_id rt) (filter (\<lambda>d. d \<noteq> []) (elems doc_ids)) else []);
          f1 = (if sanitized_doc_ids \<noteq> []
                then (if length sanitized_doc_ids = 1
                      then Some (empty_where\<lparr>w_doc_id := Some (hd sanitized_doc_ids)\<rparr>)
                      else None)
                else Some empty_where);
          f2 = (if truthy sources
                then (if length (elems sources) = 1
                      then map_option (\<lambda>f. f\<lparr>w_source := Some (hd (elems sources))\<rparr>) f1
                      else None)
                else f1)
      in if truthy doc_types
         then (if length (elems doc_types) = 1
               then map_option (\<lambda>f. f\<lparr>w_doc_type := Some (hd (elems doc_types))\<rparr>) f2
               else None)
         else f2)"

text \<open>The search with the Python filter (the fallback inside the \<open>try\<close> block).\<close>

definition python_filter_search ::
  "runtime \<Rightarrow> vectordb \<Rightarrow> world \<Rightarrow> str \<Rightarrow> nat \<Rightarrow> str list option \<Rightarrow> str list option
     \<Rightarrow> str list option \<Rightarrow> (error + document list) \<times> world" where
  "python_filter_search rt vectordb w query k doc_ids sources doc_types =
     (case similarity_search vectordb w query (max (k * 10) 50) None of
        (Inl e, w1) \<Rightarrow> (Inl e, w1)
      | (Inr raw_docs, w1) \<Rightarrow>
          (Inr (take k (python_filter_documents rt raw_docs doc_ids sources doc_types)), w1))"

text \<open>The body of the \<open>try\<close> block of \<open>search_similar\<close>.\<close>

definition first_search ::
  "runtime \<Rightarrow> vectordb \<Rightarrow> world \<Rightarrow> str \<Rightarrow> nat \<Rightarrow> str list option \<Rightarrow> str list option
     \<Rightarrow> str list option \<Rightarrow> (error + document list) \<times> world" where
  "first_search rt vectordb w query k doc_ids sources doc_types =
     (let where_filter = build_where_filter rt doc_ids sources doc_types;
          use_native_filter = (case where_filter of None \<Rightarrow> False | Some f \<Rightarrow> f \<noteq> empty_where)
      in if use_native_filter
         then (case similarity_search vectordb w query k where_filter of
                 (Inl e, w1) \<Rightarrow> (Inl e, w1)
               | (Inr results, w1) \<Rightarrow>
                   if results \<noteq> [] then (Inr results, w1)
                   else python_filter_search rt vectordb w1 query k doc_ids sources doc_types)
         else python_filter_search rt vectordb w query k doc_ids sources doc_types)"

text \<open>The condition under which the handler reloads the client and retries.\<close>

definition is_db_corruption :: "runtime \<Rightarrow> str \<Rightarrow> bool" where
  "is_db_corruption rt msg \<longleftrightarrow>
     contains (asc ''Nothing found on disk'') msg
     \<or> contains (asc ''InternalError'') msg
     \<or> contains (asc ''segment reader'') msg
     \<or> contains (asc ''sqlite'') (str_lower rt msg)
     \<or> contains (asc ''Error finding id'') msg"

definition recognized_fault :: "runtime \<Rightarrow> error \<Rightarrow> bool" where
  "recognized_fault rt e \<longleftrightarrow> is_db_corruption rt (error_msg e) \<or> is_internal_error e"

definition search_similar ::
  "runtime \<Rightarrow> world \<Rightarrow> str \<Rightarrow> nat \<Rightarrow> str \<Rightarrow> str \<Rightarrow> str list option \<Rightarrow> str list option
     \<Rightarrow> str list option \<Rightarrow> (error + document list) \<times> world" where
  "search_similar rt w query k persist_directory collection_name doc_ids sources doc_types =
     (if query = [] \<or> strip query = [] then (Inl (HTTPException 400 (asc ''Empty query'')), w)
      else
        (case get_vector_store w (persist_directory, collection_name) False False of
           (Inl e, w1) \<Rightarrow> (Inl e, w1)
         | (Inr vectordb, w1) \<Rightarrow>
             (case first_search rt vectordb w1 query k doc_ids sources doc_types of
                (Inr results, w2) \<Rightarrow> (Inr results, w2)
              | (Inl e, w2) \<Rightarrow>
                  if recognized_fault rt e
                  then (case get_vector_store w2 (persist_directory, collection_name) False True of
                          (Inl e2, w3) \<Rightarrow> (Inl e2, w3)
                        | (Inr vectordb2, w3) \<Rightarrow>
                            (case similarity_search vectordb2 w3 query (k * 10) None of
                               (Inl final_e, w4) \<Rightarrow> (Inr [], w4)
                             | (Inr raw_docs, w4) \<Rightarrow>
                                 (Inr (take k (python_filter_documents rt raw_docs doc_ids
                                                 sources doc_types)), w4)))
                  else (Inl e, w2))))"


text \<open>
  Two process states in which the cached client fails with an SQLite error: in the first
  a new client can be constructed, and it finds one document; in the second every
  construction after the first one fails.
\<close>

definition sqlite_fault :: error where
  "sqlite_fault = Raised (asc ''sqlite3 disk error'') False"

definition broken_db :: vectordb where
  "broken_db = (\<lambda>query k flt. Inl sqlite_fault)"

definition healed_db :: vectordb where
  "healed_db = (\<lambda>query k flt. Inr [blank_doc\<lparr>page_content := asc ''text'', md_doc_id := Some (asc ''a'')\<rparr>])"

definition healing_world :: world where
  "healing_world =
     \<lparr>cache = Map.empty,
      chroma = (\<lambda>n. if n = 0 then Inr broken_db else Inr healed_db),
      constructed = 0, search_log = []\<rparr>"

definition unhealable_world :: world where
  "unhealable_world =
     \<lparr>cache = Map.empty,
      chroma = (\<lambda>n. if n = 0 then Inr broken_db else Inl sqlite_fault),
      constructed = 0, search_log = []\<rparr>"


text \<open>
  The metadata that \<open>index_chunks\<close> stores with the text of a chunk: the document identifier
  is sanitised before it is written.
\<close>

definition index_chunk :: "runtime \<Rightarrow> chunk \<Rightarrow> document" where
  "index_chunk rt c =
     blank_doc\<lparr>page_content := c_content c,
               md_doc_id := Some (vs_sanitize_doc_id rt (c_doc_id c)),
               md_doc_type := Some (c_doc_type c),
               md_source := Some (c_source c),
               md_page := Some (c_page c),
               md_chunk_id := Some (c_id c),
               md_category := (case c_metadata c of TableMeta m \<Rightarrow> Some (tbm_category m)
                               | TextMeta m \<Rightarrow> None),
               md_role := (case c_metadata c of TableMeta m \<Rightarrow> Some (tbm_role m)
                           | TextMeta m \<Rightarrow> None)\<rparr>"

text \<open>
  The contract of the storage client for a native search (an equality match on the
  metadata fields named in the filter), and a client that meets it: it holds a list of
  documents, ranks them in the order of the list for every query, and never fails.
\<close>

definition matches_where :: "where_filter option \<Rightarrow> document \<Rightarrow> bool" where
  "matches_where flt d =
     (case flt of None \<Rightarrow> True
      | Some f \<Rightarrow>
          (w_doc_id f = None \<or> md_doc_id d = w_doc_id f)
          \<and> (w_source f = None \<or> md_source d = w_source f)
          \<and> (w_doc_type f = None \<or> md_doc_type d = w_doc_type f))"

definition equality_filter_contract :: "vectordb \<Rightarrow> bool" where
  "equality_filter_contract vectordb \<longleftrightarrow>
     (\<forall>query k flt docs. vectordb query k flt = Inr docs \<longrightarrow> (\<forall>d \<in> set docs. matches_where flt d))"

definition list_db :: "document list \<Rightarrow> vectordb" where
  "list_db stored = (\<lambda>query k flt. Inr (take k (filter (matches_where flt) stored)))"

definition list_world :: "document list \<Rightarrow> world" where
  "list_world stored =
     \<lparr>cache = Map.empty, chroma = (\<lambda>n. Inr (list_db stored)), constructed = 0,
      search_log = []\<rparr>"

text \<open>Two text chunks, of the documents "A" and "b ".\<close>

definition sample_chunk :: "str \<Rightarrow> str \<Rightarrow> chunk" where
  "sample_chunk doc_id content =
     \<lparr>c_id = doc_id @ asc ''::1'', c_doc_id = doc_id, c_doc_type = asc ''manual'',
      c_source = asc ''text'', c_page = Some 1, c_content = content,
      c_metadata = TextMeta
        \<lparr>tm_doc_id = doc_id, tm_page = Some 1, tm_pages = [1], tm_section = asc ''General'',
         tm_block_types = [asc ''normal''], tm_dominant_block_type = asc ''normal'',
         tm_char_count = length content, tm_intent = [asc ''general''],
         tm_primary_intent = asc ''general''\<rparr>\<rparr>"

definition sample_store :: "document list" where
  "sample_store =
     map (index_chunk ascii_rt)
       [sample_chunk (asc ''A'') (asc ''alpha''), sample_chunk (asc ''b '') (asc ''beta'')]"


section \<open>Answering a question (rag.py)\<close>

text \<open>\<open>s.replace(old, new)\<close> for a non-empty \<open>old\<close>, and \<open>s.split(sep)[0]\<close> for a character.\<close>

fun str_replace :: "str \<Rightarrow> str \<Rightarrow> str \<Rightarrow> str" where
  "str_replace old new [] = []"
| "str_replace old new (c # cs) =
     (if old \<noteq> [] \<and> take (length old) (c # cs) = old
      then new @ str_replace old new (drop (length old - 1) cs)
      else c # str_replace old new cs)"

definition before_first :: "nat \<Rightarrow> str \<Rightarrow> str" where
  "before_first sep s = takeWhile (\<lambda>c. c \<noteq> sep) s"

text \<open>The patterns of \<open>_sanitize_html_content\<close> (flags \<open>IGNORECASE\<close> and \<open>DOTALL\<close>).\<close>

definition RE_SCRIPT :: rx where
  "RE_SCRIPT =
     seqs [lit_ci (asc ''<script''), LazyStar DotAll, Ch (Lit 62), LazyStar DotAll,
           lit_ci (asc ''</script>'')]"

definition RE_JS_EVENT :: rx where
  "RE_JS_EVENT = seqs [Ch (Lit 32), lit_ci (asc ''on''), plus Word, Ch (Lit 61)]"

definition RE_JS_PROTO :: rx where
  "RE_JS_PROTO = lit_ci (asc ''javascript:'')"

definition sanitize_html_content :: "runtime \<Rightarrow> str \<Rightarrow> str" where
  "sanitize_html_content rt html =
     (if html = [] then []
      else
        (let h1 = re_sub rt RE_SCRIPT (\<lambda>gs w. []) html;
             h2 = re_sub rt RE_JS_EVENT (\<lambda>gs w. asc '' data-blocked-event='') h1
         in re_sub rt RE_JS_PROTO (\<lambda>gs w. asc ''blocked:'') h2))"

text \<open>
  The external services of the answer pipeline: the cross-encoder (\<open>None\<close> when it cannot be
  loaded; \<open>predict\<close> returns the raw scores of the pairs or raises), the two generation
  providers (\<open>None\<close> when a provider is not configured; a call with the system prompt and
  the query returns the text of the reply or raises), and the question-and-answer matcher
  \<open>_find_best_qna_answer_from_docs\<close>, which reads the ingested files of the documents and
  is taken as given. \<open>sort_with_nan\<close> is the list that \<open>list.sort\<close> leaves when one of the
  scores it sorts by is NaN: every comparison with NaN is false, so that order depends on
  the comparisons the sorting algorithm makes, and it is taken as given too.
\<close>

record source =
  s_doc_id :: "str option"
  s_page :: "str option"
  s_source :: "str option"
  s_chunk_id :: "str option"

record qna_match =
  qa_answer :: str
  qa_sources :: "source list"

record services =
  reranker :: "((str \<times> str) list \<Rightarrow> error + pyfloat list) option"
  sort_with_nan :: "document list \<Rightarrow> document list"
  primary_llm :: "(str \<Rightarrow> str \<Rightarrow> error + str) option"
  backup_llm :: "(str \<Rightarrow> str \<Rightarrow> error + str) option"
  find_best_qna :: "str \<Rightarrow> document list \<Rightarrow> qna_match option"

record payload =
  p_answer :: str
  p_sources :: "source list"
  p_intent :: "str option"
  p_mode :: str

text \<open>\<open>str(page)\<close> of a stored page, and \<open>md.get("page", "?")\<close> in an f-string.\<close>

definition show_page :: "int option \<Rightarrow> str" where
  "show_page p = (case p of None \<Rightarrow> asc ''None'' | Some n \<Rightarrow> show_int n)"

definition page_label :: "document \<Rightarrow> str" where
  "page_label d = (case md_page d of None \<Rightarrow> asc ''?'' | Some p \<Rightarrow> show_page p)"

definition GENERAL_KEYWORDS :: "str list" where
  "GENERAL_KEYWORDS =
     [[3626, 3623, 3633, 3626, 3604, 3637],
      asc ''hello'',
      asc ''hi'',
      [3623, 3633, 3609, 3609, 3637, 3657, 3623, 3633, 3609, 3629, 3632, 3652, 3619],
      [3629, 3634, 3585, 3634, 3624],
      asc ''who are you'',
      [3588, 3640, 3603, 3588, 3639, 3629, 3651, 3588, 3619],
      [3626, 3610, 3634, 3618, 3604, 3637, 3652, 3627, 3617]]"

definition detect_general_intent :: "runtime \<Rightarrow> str \<Rightarrow> bool" where
  "detect_general_intent rt query =
     (let q = strip (str_lower rt query)
      in q \<in> set GENERAL_KEYWORDS
         \<or> (contains [3623, 3633, 3609, 3609, 3637, 3657] q
             \<and> contains [3623, 3633, 3609, 3629, 3632, 3652, 3619] q))"

definition TABLE_MODE_KEYWORDS :: "str list" where
  "TABLE_MODE_KEYWORDS =
     [[3605, 3634, 3619, 3634, 3591],
      asc ''table'',
      [3618, 3629, 3604],
      [3626, 3606, 3636, 3605, 3636],
      asc ''list'',
      [3619, 3634, 3618, 3585, 3634, 3619],
      [3626, 3619, 3640, 3611]]"

definition select_intent :: "runtime \<Rightarrow> str \<Rightarrow> str \<Rightarrow> str" where
  "select_intent rt query mode =
     (if mode = asc ''auto''
      then (if \<exists>x \<in> set TABLE_MODE_KEYWORDS. contains x (str_lower rt query)
            then asc ''table'' else asc ''text'')
      else mode)"

text \<open>
  \<open>normalize_score\<close>, the logistic function. \<open>math.exp\<close> raises \<open>OverflowError\<close> when its
  result is beyond the largest float; it returns 0 and infinity at the infinities and NaN
  at NaN.
\<close>

definition DBL_MAX :: real where
  "DBL_MAX = 2 ^ 1024 - 2 ^ 971"

fun normalize_score :: "pyfloat \<Rightarrow> pyfloat" where
  "normalize_score (Fin raw_score) =
     (if exp (- raw_score) > DBL_MAX then (if raw_score < 0 then Fin 0 else Fin 1)
      else Fin (1 / (1 + exp (- raw_score))))"
| "normalize_score PosInf = Fin 1"
| "normalize_score NegInf = Fin 0"
| "normalize_score NaN = NaN"

definition clean_text_for_rerank :: "runtime \<Rightarrow> str \<Rightarrow> str" where
  "clean_text_for_rerank rt text =
     take 1000 (strip (re_sub rt (plus Space) (\<lambda>gs w. asc '' '') text))"

definition keyword_score :: "runtime \<Rightarrow> str \<Rightarrow> document \<Rightarrow> real" where
  "keyword_score rt query d =
     (let content = str_lower rt (page_content d);
          query_terms = split (str_lower rt query)
      in real (length (filter (\<lambda>term. contains term content) query_terms))
         + (if contains (str_lower rt query) content then 3 else 0))"

text \<open>
  The scores of the cross-encoder are given to the documents with a non-empty cleaned
  text, in order (\<open>zip(valid_pairs_indices, raw_scores)\<close>).
\<close>

fun assign_scores :: "runtime \<Rightarrow> document list \<Rightarrow> pyfloat list \<Rightarrow> document list" where
  "assign_scores rt [] raws = []"
| "assign_scores rt (d # ds) raws =
     (if clean_text_for_rerank rt (page_content d) = [] then d # assign_scores rt ds raws
      else (case raws of
              [] \<Rightarrow> d # ds
            | raw # raws' \<Rightarrow>
                d\<lparr>md_ai_score := Some (normalize_score raw), md_raw_score := Some raw\<rparr>
                # assign_scores rt ds raws'))"

text \<open>
  \<open>scored_docs.sort(key=lambda x: x.metadata["ai_score"], reverse=True)\<close>. Floats other
  than NaN are ordered as the pairs of \<open>score_key\<close>.
\<close>

fun score_key :: "pyfloat \<Rightarrow> int \<times> real" where
  "score_key (Fin x) = (0, x)"
| "score_key PosInf = (1, 0)"
| "score_key NegInf = (- 1, 0)"
| "score_key NaN = (0, 0)"

definition sort_by_ai_score :: "services \<Rightarrow> document list \<Rightarrow> document list" where
  "sort_by_ai_score sv docs =
     (if \<exists>d \<in> set docs. ai_score d = NaN then sort_with_nan sv docs
      else sorted_reverse (\<lambda>d. score_key (ai_score d)) docs)"

definition rerank_documents ::
  "runtime \<Rightarrow> services \<Rightarrow> str \<Rightarrow> document list \<Rightarrow> nat \<Rightarrow> document list" where
  "rerank_documents rt sv query docs top_k =
     (if docs = [] then []
      else
        (let scored_docs =
               map (\<lambda>d. d\<lparr>md_ai_score := Some (ai_score d),
                           md_keyword_score := Some (keyword_score rt query d)\<rparr>) docs;
             pairs = map (\<lambda>d. (query, clean_text_for_rerank rt (page_content d)))
                       (filter (\<lambda>d. clean_text_for_rerank rt (page_content d) \<noteq> []) scored_docs);
             fallback =
               take top_k
                 (map (\<lambda>d. if ai_score d = Fin 0 then d\<lparr>md_ai_score := Some (Fin 0.3)\<rparr> else d)
                    (sorted_reverse
                       (\<lambda>d. case md_keyword_score d of None \<Rightarrow> 0 | Some s \<Rightarrow> s) scored_docs))
         in case reranker sv of
              None \<Rightarrow> fallback
            | Some predict \<Rightarrow>
                if pairs = [] then fallback
                else (case predict pairs of
                        Inl e \<Rightarrow> fallback
                      | Inr raw_scores \<Rightarrow>
                          take top_k
                            (sort_by_ai_score sv (assign_scores rt scored_docs raw_scores)))))"

text \<open>\<open>_generate_fallback_answer\<close>.\<close>

definition NO_DOCS_ANSWER :: str where
  "NO_DOCS_ANSWER =
     [3652, 3617, 3656, 3614, 3610, 3586, 3657, 3629, 3617, 3641, 3621, 3607, 3637, 3656,
      3648, 3585, 3637, 3656, 3618, 3623, 3586, 3657, 3629, 3591, 3651, 3609, 3648, 3629,
      3585, 3626, 3634, 3619, 32, 40, 3649, 3621, 3632, 32, 65, 73, 32, 3652, 3617, 3656,
      3626, 3634, 3617, 3634, 3619, 3606, 3611, 3619, 3632, 3617, 3623, 3621, 3612, 3621,
      3652, 3604, 3657, 3651, 3609, 3586, 3603, 3632, 3609, 3637, 3657, 41]"

definition snippet :: "nat \<Rightarrow> document \<Rightarrow> str" where
  "snippet i d =
     asc ''**'' @ show_nat i @ [46, 32, 40, 3627, 3609, 3657, 3634, 32] @ page_label d
     @ asc '')** ''
     @ strip (map (\<lambda>c. if c = 10 then 32 else c) (take 400 (page_content d))) @ asc ''...''"

definition fallback_header :: "str \<Rightarrow> str" where
  "fallback_header error_msg' =
     [9888, 65039, 32, 42, 42, 3649, 3592, 3657, 3591, 3648, 3605, 3639, 3629, 3609, 32, 40]
     @ error_msg'
     @ [41, 58, 42, 42, 32, 3619, 3632, 3610, 3610, 3592, 3638, 3591, 3604, 3638, 3591, 3648,
      3609, 3639, 3657, 3629, 3627, 3634, 3607, 3637, 3656, 3648, 3585, 3637, 3656, 3618,
      3623, 3586, 3657, 3629, 3591, 3592, 3634, 3585, 3648, 3629, 3585, 3626, 3634, 3619,
      3617, 3634, 3649, 3626, 3604, 3591, 3651, 3627, 3657, 3650, 3604, 3618, 3605, 3619,
      3591, 3588, 3619, 3633, 3610, 58, 10, 10]"

definition generate_fallback_answer :: "document list \<Rightarrow> str \<Rightarrow> str" where
  "generate_fallback_answer docs error_msg' =
     (if docs = [] then NO_DOCS_ANSWER
      else fallback_header error_msg'
           @ join [10, 10] (map (\<lambda>(i, d). snippet i d) (zip [1 ..< 5] (take 4 docs))))"

text \<open>
  The context and the table maps. \<open>table_map\<close> and \<open>table_cat_map\<close> are dictionaries; their
  entries are kept in insertion order.
\<close>

record answer_context =
  context_parts :: "str list"
  table_map :: "(str \<times> str) list"
  table_cat_map :: "(str \<times> str) list"
  table_counter :: nat
  found_table_ids :: "str list"

definition CONTEXT_HEADING :: str where
  "CONTEXT_HEADING =
     [9888, 65039, 32, 42, 42, 3649, 3627, 3621, 3656, 3591, 3586, 3657, 3629, 3617, 3641,
      3621, 3629, 3657, 3634, 3591, 3629, 3636, 3591, 58, 42, 42, 32, 40, 3648, 3619, 3637,
      3618, 3591, 3605, 3634, 3617, 3588, 3623, 3634, 3617, 3648, 3585, 3637, 3656, 3618,
      3623, 3586, 3657, 3629, 3591, 41, 10]"

definition doc_source :: "runtime \<Rightarrow> document \<Rightarrow> str" where
  "doc_source rt d = strip (str_lower rt (case md_source d of None \<Rightarrow> asc ''text'' | Some s \<Rightarrow> s))"

definition table_html :: "runtime \<Rightarrow> document \<Rightarrow> str" where
  "table_html rt d =
     (let safe_html = sanitize_html_content rt (case md_html_content d of None \<Rightarrow> [] | Some h \<Rightarrow> h)
      in if safe_html = []
         then asc ''<pre class='' @ [39] @ asc ''text-xs overflow-auto p-2 bg-gray-100'' @ [39]
              @ asc ''>''
              @ (case md_markdown_content d of None \<Rightarrow> asc ''No content'' | Some m \<Rightarrow> m)
              @ asc ''</pre>''
         else safe_html)"

definition add_if_absent :: "str \<Rightarrow> str \<Rightarrow> (str \<times> str) list \<Rightarrow> (str \<times> str) list" where
  "add_if_absent key v m = (if map_of m key = None then m @ [(key, v)] else m)"

definition context_step :: "runtime \<Rightarrow> answer_context \<Rightarrow> nat \<times> document \<Rightarrow> answer_context" where
  "context_step rt cx item =
     (case item of (i, d) \<Rightarrow>
        (let doc_id = (case md_doc_id d of None \<Rightarrow> asc ''unknown'' | Some x \<Rightarrow> x);
             content = filter (\<lambda>c. c \<noteq> 0) (page_content d);
             chunk_header = asc ''[SOURCE '' @ show_nat i @ asc ''] ID: '' @ doc_id
                            @ asc '' | Page: '' @ page_label d
         in if doc_source rt d = asc ''table''
            then
              (let table_ref_id = show_nat (table_counter cx + 1);
                   safe_html = table_html rt d;
                   category = str_lower rt (strip (case md_category d of None \<Rightarrow> [] | Some c \<Rightarrow> c));
                   role = str_lower rt (strip (case md_role d of None \<Rightarrow> [] | Some r \<Rightarrow> r));
                   m1 = (if category \<noteq> []
                         then add_if_absent (asc ''cat:'' @ category) safe_html (table_cat_map cx)
                         else table_cat_map cx);
                   m2 = (if role \<noteq> [] then add_if_absent (asc ''role:'' @ role) safe_html m1
                         else m1)
               in cx\<lparr>context_parts := context_parts cx
                          @ [chunk_header @ asc '' | **TYPE: TABLE (Code: [SHOW_TABLE:TBL_''
                             @ table_ref_id @ asc ''])**'' @ [10] @ take 3500 content],
                      table_map := table_map cx @ [(table_ref_id, safe_html)],
                      table_cat_map := m2,
                      table_counter := table_counter cx + 1,
                      found_table_ids := found_table_ids cx @ [table_ref_id]\<rparr>)
            else cx\<lparr>context_parts := context_parts cx @ [chunk_header @ [10] @ take 3500 content]\<rparr>))"

definition build_context :: "runtime \<Rightarrow> document list \<Rightarrow> answer_context" where
  "build_context rt docs =
     foldl (context_step rt)
       \<lparr>context_parts = [CONTEXT_HEADING], table_map = [], table_cat_map = [],
        table_counter = 0, found_table_ids = []\<rparr>
       (zip [1 ..< length docs + 1] docs)"

definition TABLE_PROMPT :: str where
  "TABLE_PROMPT =
     [3588, 3640, 3603, 3648, 3611, 3655, 3609, 32, 65, 73, 32, 3607, 3637, 3656, 3607, 3635,
      3627, 3609, 3657, 3634, 3607, 3637, 3656, 3604, 3638, 3591, 32, 39, 3605, 3634, 3619,
      3634, 3591, 39, 32, 3592, 3634, 3585, 3648, 3629, 3585, 3626, 3634, 3619, 3617, 3634,
      3649, 3626, 3604, 3591, 3605, 3634, 3617, 3588, 3635, 3626, 3633, 3656, 3591, 10, 3588,
      3635, 3626, 3633, 3656, 3591, 58, 10, 49, 46, 32, 3604, 3641, 3586, 3657, 3629, 3617,
      3641, 3621, 3651, 3609, 32, 67, 79, 78, 84, 69, 88, 84, 32, 3623, 3656, 3634, 3617,
      3637, 3605, 3634, 3619, 3634, 3591, 32, 40, 83, 79, 85, 82, 67, 69, 58, 32, 84, 97, 98,
      108, 101, 41, 32, 3607, 3637, 3656, 3648, 3585, 3637, 3656, 3618, 3623, 3586, 3657,
      3629, 3591, 3585, 3633, 3610, 3588, 3635, 3606, 3634, 3617, 3627, 3619, 3639, 3629,
      3652, 3617, 3656, 10, 50, 46, 32, 3606, 3657, 3634, 3614, 3610, 3605, 3634, 3619, 3634,
      3591, 32, 3651, 3627, 3657, 3605, 3629, 3610, 3604, 3657, 3623, 3618, 3619, 3627, 3633,
      3626, 32, 91, 83, 72, 79, 87, 95, 84, 65, 66, 76, 69, 58, 84, 66, 76, 95, 120, 93, 32,
      3648, 3607, 3656, 3634, 3609, 3633, 3657, 3609, 32, 3627, 3657, 3634, 3617, 3626, 3619,
      3640, 3611, 3588, 3623, 3634, 3617, 32, 3627, 3657, 3634, 3617, 3629, 3608, 3636, 3610,
      3634, 3618, 3648, 3614, 3636, 3656, 3617, 10, 51, 46, 32, 3606, 3657, 3634, 3614, 3610,
      3627, 3621, 3634, 3618, 3605, 3634, 3619, 3634, 3591, 3607, 3637, 3656, 3648, 3585,
      3637, 3656, 3618, 3623, 3586, 3657, 3629, 3591, 3585, 3633, 3609, 32, 3651, 3627, 3657,
      3626, 3656, 3591, 3617, 3634, 3651, 3627, 3657, 3588, 3619, 3610, 32, 3648, 3594, 3656,
      3609, 32, 91, 83, 72, 79, 87, 95, 84, 65, 66, 76, 69, 58, 84, 66, 76, 95, 49, 93, 32,
      91, 83, 72, 79, 87, 95, 84, 65, 66, 76, 69, 58, 84, 66, 76, 95, 50, 93, 10, 52, 46, 32,
      3606, 3657, 3634, 3648, 3611, 3655, 3609, 3588, 3635, 3586, 3629, 3651, 3627, 3657,
      3649, 3626, 3604, 3591, 3605, 3634, 3619, 3634, 3591, 32, 3651, 3627, 3657, 3592, 3633,
      3604, 3621, 3635, 3604, 3633, 3610, 3588, 3623, 3634, 3617, 3626, 3635, 3588, 3633,
      3597, 3607, 3637, 3656, 3605, 3634, 3619, 3634, 3591, 3585, 3656, 3629, 3609, 3648,
      3626, 3617, 3629, 10, 10, 61, 61, 61, 32, 67, 79, 78, 84, 69, 88, 84, 32, 61, 61, 61,
      10]"

definition TEXT_PROMPT :: str where
  "TEXT_PROMPT =
     [3588, 3640, 3603, 3648, 3611, 3655, 3609, 3612, 3641, 3657, 3594, 3656, 3623, 3618,
      3629, 3633, 3592, 3593, 3619, 3636, 3618, 3632, 32, 40, 83, 109, 97, 114, 116, 32, 65,
      115, 115, 105, 115, 116, 97, 110, 116, 41, 32, 3607, 3637, 3656, 3605, 3629, 3610,
      3588, 3635, 3606, 3634, 3617, 3592, 3634, 3585, 3648, 3629, 3585, 3626, 3634, 3619,
      3607, 3637, 3656, 3585, 3635, 3627, 3609, 3604, 3651, 3627, 3657, 32, 40, 67, 111, 110,
      116, 101, 120, 116, 41, 32, 3648, 3607, 3656, 3634, 3609, 3633, 3657, 3609, 10, 3588,
      3635, 3649, 3609, 3632, 3609, 3635, 58, 10, 49, 46, 32, 42, 42, 3623, 3636, 3648, 3588,
      3619, 3634, 3632, 3627, 3660, 3588, 3635, 3606, 3634, 3617, 58, 42, 42, 32, 3592, 3633,
      3610, 3611, 3619, 3632, 3648, 3604, 3655, 3609, 3626, 3635, 3588, 3633, 3597, 3623,
      3656, 3634, 3612, 3641, 3657, 3651, 3594, 3657, 3605, 3657, 3629, 3591, 3585, 3634,
      3619, 3607, 3619, 3634, 3610, 3629, 3632, 3652, 3619, 10, 50, 46, 32, 42, 42, 3588,
      3657, 3609, 3627, 3634, 3586, 3657, 3629, 3617, 3641, 3621, 58, 42, 42, 32, 3604, 3641,
      3586, 3657, 3629, 3617, 3641, 3621, 3651, 3609, 32, 67, 111, 110, 116, 101, 120, 116,
      32, 3623, 3656, 3634, 3617, 3637, 3626, 3656, 3623, 3609, 3652, 3627, 3609, 3607, 3637,
      3656, 3605, 3629, 3610, 3588, 3635, 3606, 3634, 3617, 3652, 3604, 3657, 3610, 3657,
      3634, 3591, 10, 32, 32, 32, 45, 32, 9888, 65039, 32, 42, 42, 3626, 3635, 3588, 3633,
      3597, 58, 42, 42, 32, 3649, 3627, 3621, 3656, 3591, 3586, 3657, 3629, 3617, 3641, 3621,
      3651, 3609, 32, 67, 111, 110, 116, 101, 120, 116, 32, 3648, 3619, 3637, 3618, 3591,
      3605, 3634, 3617, 3621, 3635, 3604, 3633, 3610, 3588, 3623, 3634, 3617, 3626, 3635,
      3588, 3633, 3597, 3649, 3621, 3657, 3623, 32, 3651, 3627, 3657, 3588, 3623, 3634, 3617,
      3626, 3635, 3588, 3633, 3597, 3585, 3633, 3610, 3621, 3635, 3604, 3633, 3610, 3605,
      3657, 3609, 3654, 32, 3585, 3656, 3629, 3609, 10, 51, 46, 32, 42, 42, 3626, 3633, 3591,
      3648, 3588, 3619, 3634, 3632, 3627, 3660, 3588, 3635, 3605, 3629, 3610, 58, 42, 42, 32,
      3648, 3619, 3637, 3618, 3610, 3648, 3619, 3637, 3618, 3591, 3588, 3635, 3605, 3629,
      3610, 3651, 3627, 3657, 3609, 3656, 3634, 3629, 3656, 3634, 3609, 32, 3648, 3611, 3655,
      3609, 3616, 3634, 3625, 3634, 3652, 3607, 3618, 3607, 3637, 3656, 3626, 3621, 3632,
      3626, 3621, 3623, 3618, 10, 52, 46, 32, 42, 42, 3585, 3634, 3619, 3649, 3626, 3604,
      3591, 3605, 3634, 3619, 3634, 3591, 32, 40, 3618, 3639, 3604, 3627, 3618, 3640, 3656,
      3609, 41, 58, 42, 42, 10, 32, 32, 32, 45, 32, 91, 83, 72, 79, 87, 95, 84, 65, 66, 76,
      69, 58, 84, 66, 76, 95, 120, 93, 32, 3626, 3635, 3627, 3619, 3633, 3610, 3648, 3619,
      3637, 3618, 3585, 3605, 3634, 3619, 3634, 3591, 3604, 3657, 3623, 3618, 3648, 3621,
      3586, 32, 40, 3648, 3594, 3656, 3609, 32, 84, 66, 76, 95, 49, 41, 10, 32, 32, 32, 45,
      32, 91, 83, 72, 79, 87, 95, 84, 65, 66, 76, 69, 58, 67, 65, 84, 61, 3627, 3617, 3623,
      3604, 3627, 3617, 3641, 3656, 93, 32, 3626, 3635, 3627, 3619, 3633, 3610, 3648, 3619,
      3637, 3618, 3585, 3605, 3634, 3619, 3634, 3591, 3604, 3657, 3623, 3618, 3627, 3617,
      3623, 3604, 10, 53, 46, 32, 42, 42, 91, 3626, 3635, 3588, 3633, 3597, 93, 32, 3585,
      3634, 3619, 3651, 3594, 3657, 3586, 3657, 3629, 3617, 3641, 3621, 3592, 3634, 3585,
      3605, 3634, 3619, 3634, 3591, 58, 42, 42, 10, 32, 32, 32, 45, 32, 3627, 3634, 3585,
      3586, 3657, 3629, 3617, 3641, 3621, 3588, 3635, 3605, 3629, 3610, 3629, 3618, 3641,
      3656, 3651, 3609, 3626, 3656, 3623, 3609, 3607, 3637, 3656, 3648, 3611, 3655, 3609, 32,
      84, 97, 98, 108, 101, 32, 40, 83, 79, 85, 82, 67, 69, 32, 84, 121, 112, 101, 58, 32,
      84, 97, 98, 108, 101, 41, 32, 42, 42, 3605, 3657, 3629, 3591, 42, 42, 32, 3604, 3638,
      3591, 3586, 3657, 3629, 3617, 3641, 3621, 3609, 3633, 3657, 3609, 3617, 3634, 3605,
      3629, 3610, 32, 3629, 3618, 3656, 3634, 3610, 3629, 3585, 3623, 3656, 3634, 3652, 3617,
      3656, 3614, 3610, 3586, 3657, 3629, 3617, 3641, 3621, 10, 32, 32, 32, 45, 32, 3606,
      3657, 3634, 3605, 3634, 3619, 3634, 3591, 3617, 3637, 3586, 3657, 3629, 3617, 3641,
      3621, 3607, 3637, 3656, 3605, 3629, 3610, 3588, 3635, 3606, 3634, 3617, 3652, 3604,
      3657, 32, 3651, 3627, 3657, 3605, 3629, 3610, 3615, 3633, 3609, 3608, 3591, 3652, 3611,
      3648, 3621, 3618, 10, 10, 3585, 3598, 3648, 3627, 3621, 3655, 3585, 58, 10, 45, 32,
      3627, 3657, 3634, 3617, 3605, 3629, 3610, 3609, 3629, 3585, 3648, 3627, 3609, 3639,
      3629, 3592, 3634, 3585, 3586, 3657, 3629, 3617, 3641, 3621, 3607, 3637, 3656, 3617,
      3637, 3651, 3609, 32, 67, 111, 110, 116, 101, 120, 116, 10, 45, 32, 3606, 3657, 3634,
      3652, 3617, 3656, 3614, 3610, 3586, 3657, 3629, 3617, 3641, 3621, 32, 3651, 3627, 3657,
      3605, 3629, 3610, 3623, 3656, 3634, 32, 39, 3652, 3617, 3656, 3614, 3610, 3586, 3657,
      3629, 3617, 3641, 3621, 3651, 3609, 3648, 3629, 3585, 3626, 3634, 3619, 3607, 3637,
      3656, 3649, 3609, 3610, 3617, 3634, 39, 10, 45, 32, 3627, 3657, 3634, 3617, 3649, 3605,
      3656, 3591, 3648, 3605, 3636, 3617, 3586, 3657, 3629, 3617, 3641, 3621, 3648, 3629,
      3591, 32, 40, 65, 110, 116, 105, 45, 72, 97, 108, 108, 117, 99, 105, 110, 97, 116, 105,
      111, 110, 41, 10, 10, 91, 73, 77, 65, 71, 69, 32, 72, 65, 78, 68, 76, 73, 78, 71, 93,
      10, 3606, 3657, 3634, 3612, 3641, 3657, 3651, 3594, 3657, 3606, 3634, 3617, 3627, 3634,
      3619, 3641, 3611, 3616, 3634, 3614, 32, 3627, 3619, 3639, 3629, 3651, 3609, 32, 67,
      111, 110, 116, 101, 120, 116, 32, 3617, 3637, 3586, 3657, 3629, 3617, 3641, 3621, 3619,
      3641, 3611, 3616, 3634, 3614, 3607, 3637, 3656, 3648, 3585, 3637, 3656, 3618, 3623,
      3586, 3657, 3629, 3591, 58, 10, 49, 46, 32, 3617, 3629, 3591, 3627, 3634, 3586, 3657,
      3629, 3617, 3641, 3621, 3607, 3637, 3656, 3586, 3638, 3657, 3609, 3605, 3657, 3609,
      3604, 3657, 3623, 3618, 32, 39, 80, 97, 116, 104, 58, 32, 46, 46, 46, 39, 32, 3651,
      3609, 32, 67, 111, 110, 116, 101, 120, 116, 10, 50, 46, 32, 3605, 3629, 3610, 3650,
      3604, 3618, 3651, 3594, 3657, 32, 84, 97, 103, 32, 3609, 3637, 3657, 3649, 3607, 3619,
      3585, 3651, 3609, 3588, 3635, 3605, 3629, 3610, 58, 32, 91, 83, 72, 79, 87, 95, 73, 77,
      65, 71, 69, 58, 32, 60, 112, 97, 116, 104, 95, 102, 105, 108, 101, 62, 93, 10, 3605,
      3633, 3623, 3629, 3618, 3656, 3634, 3591, 58, 32, 39, 3609, 3637, 3656, 3588, 3639,
      3629, 3619, 3641, 3611, 3607, 3637, 3656, 3588, 3640, 3603, 3605, 3657, 3629, 3591,
      3585, 3634, 3619, 3588, 3619, 3633, 3610, 32, 91, 83, 72, 79, 87, 95, 73, 77, 65, 71,
      69, 58, 32, 105, 110, 103, 101, 115, 116, 101, 100, 47, 100, 111, 99, 95, 48, 48, 49,
      47, 105, 109, 97, 103, 101, 115, 47, 105, 109, 103, 95, 49, 46, 112, 110, 103, 93, 39,
      61, 61, 61, 32, 67, 79, 78, 84, 69, 88, 84, 32, 61, 61, 61, 10]"

definition system_prompt :: "str \<Rightarrow> str \<Rightarrow> str" where
  "system_prompt mode context_text =
     (if mode = asc ''table'' then TABLE_PROMPT else TEXT_PROMPT)
     @ context_text @ [10] @ asc ''===============''"

text \<open>The reply of a provider: the empty string when it is missing or raises.\<close>

definition invoke :: "(str \<Rightarrow> str \<Rightarrow> error + str) option \<Rightarrow> str \<Rightarrow> str \<Rightarrow> str \<Rightarrow> str" where
  "invoke llm prompt query answer_text =
     (case llm of
        None \<Rightarrow> answer_text
      | Some ainvoke \<Rightarrow> (case ainvoke prompt query of Inl e \<Rightarrow> answer_text | Inr content \<Rightarrow> content))"

definition generate_text :: "services \<Rightarrow> str \<Rightarrow> str \<Rightarrow> str" where
  "generate_text sv prompt query =
     (let answer_text = invoke (primary_llm sv) prompt query []
      in if answer_text = [] \<or> answer_text = asc ''AI Error''
         then invoke (backup_llm sv) prompt query answer_text
         else answer_text)"

text \<open>The substitution of the table markers in the generated text.\<close>

definition SHOW_WORDS :: rx where
  "SHOW_WORDS = alts [lit_ci (asc ''SHOW_TABLE''), lit_ci (asc ''SHOW''), lit_ci (asc ''TABLE'')]"

definition pattern_cat :: rx where
  "pattern_cat =
     seqs [Ch (Lit 91), SHOW_WORDS, Star (Not (Lit 58)), Ch (Lit 58), Star Space,
           lit_ci (asc ''CAT''), Star Space, Ch (Lit 61), Star Space,
           Grp (plus (Not (Lit 93))), Ch (Lit 93)]"

definition pattern_id :: rx where
  "pattern_id =
     seqs [Ch (Lit 91), SHOW_WORDS, Star (Not (Lit 58)), Ch (Lit 58), Star Space,
           Opt (Seq (lit_ci (asc ''TBL'')) (Opt (Ch (Lit 95)))), Star Space,
           Grp (plus (Or Digit (Lit 46))), Ch (Lit 93)]"

definition table_div :: "str \<Rightarrow> str" where
  "table_div html =
     [10] @ asc ''<div class='' @ [39]
     @ asc ''my-4 overflow-x-auto border rounded-lg shadow-sm bg-white p-2'' @ [39] @ asc ''>''
     @ html @ asc ''</div>'' @ [10]"

definition replace_cat :: "runtime \<Rightarrow> (str \<times> str) list \<Rightarrow> str list \<Rightarrow> str \<Rightarrow> str" where
  "replace_cat rt cat_map gs whole =
     (let cat_name = str_lower rt (strip (hd gs))
      in case map_of cat_map (asc ''cat:'' @ cat_name) of
           Some html \<Rightarrow> table_div html
         | None \<Rightarrow>
             (case map_of cat_map (asc ''role:'' @ cat_name) of
                Some html \<Rightarrow> table_div html
              | None \<Rightarrow> whole))"

definition replace_match :: "(str \<times> str) list \<Rightarrow> str list \<Rightarrow> str \<Rightarrow> str" where
  "replace_match tmap gs whole =
     (let found_id = hd gs;
          clean_id = strip (str_replace (asc ''TBL_'') [] found_id)
      in case map_of tmap clean_id of
           Some html \<Rightarrow> table_div html
         | None \<Rightarrow>
             (case (if 46 \<in> set found_id then map_of tmap (before_first 46 found_id) else None) of
                Some html \<Rightarrow> table_div html
              | None \<Rightarrow>
                  if length tmap = 1 then table_div (snd (hd tmap)) else whole))"

definition reinject_tables :: "runtime \<Rightarrow> (str \<times> str) list \<Rightarrow> (str \<times> str) list \<Rightarrow> str \<Rightarrow> str" where
  "reinject_tables rt tmap cat_map answer_text =
     (if (tmap \<noteq> [] \<or> cat_map \<noteq> []) \<and> answer_text \<noteq> []
      then re_sub rt pattern_id (replace_match tmap)
             (re_sub rt pattern_cat (replace_cat rt cat_map) answer_text)
      else answer_text)"

definition source_of :: "document \<Rightarrow> source" where
  "source_of d =
     \<lparr>s_doc_id = md_doc_id d,
      s_page = (case md_page d of None \<Rightarrow> None | Some p \<Rightarrow> map_option show_int p),
      s_source = md_source d, s_chunk_id = md_chunk_id d\<rparr>"

text \<open>
  The generation stage of \<open>answer_question\<close>: everything after the relevance gate, for the
  candidates \<open>docs\<close> that passed it.
\<close>

definition generate_answer ::
  "runtime \<Rightarrow> services \<Rightarrow> str \<Rightarrow> str \<Rightarrow> str \<Rightarrow> document list \<Rightarrow> payload" where
  "generate_answer rt sv query mode intent_label docs =
     (let cx = build_context rt docs;
          context_text = join [10, 10] (context_parts cx);
          answer_text = generate_text sv (system_prompt mode context_text) query
      in if answer_text = [] \<and> \<not> (mode = asc ''table'' \<and> found_table_ids cx \<noteq> [])
         then \<lparr>p_answer = generate_fallback_answer docs (asc ''System Error''), p_sources = [],
               p_intent = Some intent_label, p_mode = mode @ asc ''+error''\<rparr>
         else \<lparr>p_answer = reinject_tables rt (table_map cx) (table_cat_map cx) answer_text,
               p_sources = map source_of docs, p_intent = Some intent_label,
               p_mode = mode @ asc ''+qna_llm''\<rparr>)"

definition CLARIFICATION :: str where
  "CLARIFICATION =
     [3585, 3619, 3640, 3603, 3634, 3614, 3636, 3617, 3614, 3660, 3588, 3635, 3606, 3634,
      3617, 3588, 3619, 3633, 3610]"

definition GENERAL_ANSWER :: str where
  "GENERAL_ANSWER =
     [3588, 3635, 3606, 3634, 3617, 3609, 3637, 3657, 3604, 3641, 3648, 3627, 3617, 3639,
      3629, 3609, 3648, 3611, 3655, 3609, 3588, 3635, 3606, 3634, 3617, 3607, 3633, 3656,
      3623, 3652, 3611, 32, 3612, 3617, 3605, 3629, 3610, 3652, 3604, 3657, 3648, 3593, 3614,
      3634, 3632, 3586, 3657, 3629, 3617, 3641, 3621, 3607, 3637, 3656, 3617, 3637, 3651,
      3609, 3648, 3629, 3585, 3626, 3634, 3619, 3607, 3637, 3656, 3649, 3609, 3610, 3617,
      3634, 3648, 3607, 3656, 3634, 3609, 3633, 3657, 3609, 3588, 3619, 3633, 3610, 32, 40,
      3621, 3629, 3591, 3606, 3634, 3617, 3648, 3585, 3637, 3656, 3618, 3623, 3585, 3633,
      3610, 3648, 3609, 3639, 3657, 3629, 3627, 3634, 3651, 3609, 3648, 3629, 3585, 3626,
      3634, 3619, 3604, 3641, 3609, 3632, 3588, 3619, 3633, 3610, 41]"

definition NOT_FOUND_ANSWER :: str where
  "NOT_FOUND_ANSWER =
     [3652, 3617, 3656, 3614, 3610, 3586, 3657, 3629, 3617, 3641, 3621, 3607, 3637, 3656,
      3605, 3619, 3591, 3585, 3633, 3610, 3588, 3635, 3606, 3634, 3617, 3651, 3609, 3648,
      3629, 3585, 3626, 3634, 3619, 3607, 3637, 3656, 3649, 3609, 3610, 3617, 3634, 3588,
      3619, 3633, 3610, 32, 40, 82, 101, 108, 101, 118, 97, 110, 99, 101, 32, 83, 99, 111,
      114, 101, 32, 3605, 3656, 3635, 3648, 3585, 3636, 3609, 3652, 3611, 41]"

definition SEARCH_FAILED :: str where
  "SEARCH_FAILED =
     [3619, 3632, 3610, 3610, 3588, 3657, 3609, 3627, 3634, 3586, 3633, 3604, 3586, 3657,
      3629, 3591, 58, 32]"

definition answer_question ::
  "runtime \<Rightarrow> services \<Rightarrow> world \<Rightarrow> str \<Rightarrow> str list option \<Rightarrow> nat \<Rightarrow> str \<Rightarrow> payload \<times> world" where
  "answer_question rt sv w query doc_ids top_k mode =
     (if query = [] \<or> strip query = []
      then (\<lparr>p_answer = CLARIFICATION, p_sources = [], p_intent = None, p_mode = mode\<rparr>, w)
      else if detect_general_intent rt query
      then (\<lparr>p_answer = GENERAL_ANSWER, p_sources = [], p_intent = Some (asc ''general''),
             p_mode = mode\<rparr>, w)
      else
        (let intent_label = select_intent rt query mode;
             sanitized_doc_ids =
               (if truthy doc_ids
                then Some (map (rag_sanitize_doc_id rt) (filter (\<lambda>d. d \<noteq> []) (elems doc_ids)))
                else None)
         in case search_similar rt w query (top_k * 3) CHROMA_DIR COLLECTION_NAME
                   sanitized_doc_ids None None of
              (Inl e, w1) \<Rightarrow>
                (\<lparr>p_answer = SEARCH_FAILED @ error_msg e, p_sources = [], p_intent = Some intent_label,
                  p_mode = mode\<rparr>, w1)
            | (Inr raw_docs, w1) \<Rightarrow>
                (let docs = rerank_documents rt sv query raw_docs top_k;
                     relevant_docs = filter_relevant_docs rt query docs MIN_SCORE_THRESHOLD
                 in if relevant_docs = []
                    then (case find_best_qna sv query docs of
                            Some qna \<Rightarrow>
                              (\<lparr>p_answer = qa_answer qna, p_sources = qa_sources qna,
                                p_intent = Some (asc ''qna''), p_mode = mode @ asc ''+qna''\<rparr>, w1)
                          | None \<Rightarrow>
                              (\<lparr>p_answer = NOT_FOUND_ANSWER, p_sources = [],
                                p_intent = Some intent_label, p_mode = mode\<rparr>, w1))
                    else (generate_answer rt sv query mode intent_label relevant_docs, w1))))"


text \<open>Services without any provider, and two table candidates.\<close>

definition no_services :: services where
  "no_services =
     \<lparr>reranker = None, sort_with_nan = (\<lambda>docs. docs), primary_llm = None, backup_llm = None,
      find_best_qna = (\<lambda>query docs. None)\<rparr>"

definition table_doc :: "str \<Rightarrow> str \<Rightarrow> document" where
  "table_doc category html =
     blank_doc\<lparr>page_content := asc ''Revenue 10'', md_doc_id := Some (asc ''a''),
               md_source := Some (asc ''table''), md_page := Some (Some 2),
               md_ai_score := Some (Fin 0.9), md_html_content := Some html,
               md_category := Some category\<rparr>"


text \<open>
  The fingerprint from which the content hash and the identifier of a text chunk are
  computed, for a group of blocks and for a finished chunk.
\<close>

definition group_fingerprint :: "runtime \<Rightarrow> text_group \<Rightarrow> str" where
  "group_fingerprint rt grp =
     (case format_chunk_content rt grp of (content, meta) \<Rightarrow> semantic_fingerprint content meta)"

definition chunk_fingerprint :: "chunk \<Rightarrow> str" where
  "chunk_fingerprint c =
     (case c_metadata c of
        TextMeta meta \<Rightarrow> semantic_fingerprint (c_content c) meta
      | TableMeta meta \<Rightarrow> [])"


text \<open>
  A bundle of three blocks in which the first and the last block are equal and lie in a
  different section than the second one.
\<close>

definition demo_block :: "str \<Rightarrow> str \<Rightarrow> text_block" where
  "demo_block section content =
     \<lparr>tb_doc_id = asc ''doc'', tb_page = 1, tb_section = Some section, tb_content = content,
      tb_doc_type = None, tb_heading_level = None, tb_block_type = None\<rparr>"

definition demo_texts :: "text_block list" where
  "demo_texts =
     [demo_block (asc ''A'') (asc ''hot item''), demo_block (asc ''B'') (asc ''cost 10''),
      demo_block (asc ''A'') (asc ''hot item'')]"


section \<open>Properties of the primary intent\<close>

lemma sorted_map_last_greatest:
  "sorted (map key ys) \<Longrightarrow> x \<in> set ys \<Longrightarrow> key x \<le> key (last ys)"
  by (induction ys) auto

lemma sort_key_last_greatest:
  assumes "x \<in> set xs"
  shows "key x \<le> key (last (sort_key key xs))"
  by (rule sorted_map_last_greatest) (use assms in simp_all)

lemma sorted_reverse_hd_greatest:
  assumes "x \<in> set xs"
  shows "key x \<le> key (hd (sorted_reverse key xs))"
proof -
  have "length (sort_key key (rev xs)) = length xs" by simp
  moreover have "xs \<noteq> []" using assms by auto
  ultimately have "sort_key key (rev xs) \<noteq> []" by (metis length_0_conv)
  then have "hd (sorted_reverse key xs) = last (sort_key key (rev xs))"
    by (simp add: sorted_reverse_def hd_rev)
  moreover have "key x \<le> key (last (sort_key key (rev xs)))"
    using assms by (intro sort_key_last_greatest) simp
  ultimately show ?thesis by simp
qed

lemma sorted_reverse_hd_in_set:
  assumes "xs \<noteq> []"
  shows "hd (sorted_reverse key xs) \<in> set xs"
proof -
  have "sorted_reverse key xs \<noteq> []"
    using assms by (auto simp: sorted_reverse_def dest!: arg_cong [where f = length])
  then have "hd (sorted_reverse key xs) \<in> set (sorted_reverse key xs)" by simp
  then show ?thesis by (simp add: sorted_reverse_def)
qed

text \<open>
  The selected intent is a member of the list with the greatest (priority, name) pair; as
  the pair determines the name, the result depends on the set of intents only.
\<close>

lemma select_primary_intent_in_set:
  "intents \<noteq> [] \<Longrightarrow> select_primary_intent intents \<in> set intents"
  by (simp add: select_primary_intent_def sorted_reverse_hd_in_set)

lemma select_primary_intent_greatest:
  assumes "x \<in> set intents"
  shows "(intent_priority x, x)
           \<le> (intent_priority (select_primary_intent intents), select_primary_intent intents)"
proof -
  have "intents \<noteq> []" using assms by auto
  then show ?thesis
    using sorted_reverse_hd_greatest [OF assms, of "\<lambda>x. (intent_priority x, x)"]
    by (simp add: select_primary_intent_def)
qed

lemma select_primary_intent_set:
  assumes "set xs = set ys"
  shows "select_primary_intent xs = select_primary_intent ys"
proof (cases "xs = []")
  case True
  then show ?thesis using assms by simp
next
  case False
  then have ne: "ys \<noteq> []" using assms by auto
  let ?a = "select_primary_intent xs" and ?b = "select_primary_intent ys"
  have a: "?a \<in> set ys" using select_primary_intent_in_set [OF False] assms by simp
  have b: "?b \<in> set xs" using select_primary_intent_in_set [OF ne] assms by simp
  have "(intent_priority ?a, ?a) \<le> (intent_priority ?b, ?b)"
    using a by (rule select_primary_intent_greatest)
  moreover have "(intent_priority ?b, ?b) \<le> (intent_priority ?a, ?a)"
    using b by (rule select_primary_intent_greatest)
  ultimately have "(intent_priority ?a, ?a) = (intent_priority ?b, ?b)" by (rule antisym)
  then show ?thesis by simp
qed

text \<open>
  C1. The claim asks that among the tags of highest priority the alphabetically first one
  is chosen. The sort uses \<open>reverse=True\<close> on the pair (priority, name), so the name is
  compared in descending order as well: for the two tags of priority 5, "safety" and
  "troubleshooting", the selected tag is "troubleshooting", the alphabetically last one,
  whatever the order of the list.
\<close>

theorem select_primary_intent_tie_is_last:
  "select_primary_intent [asc ''safety'', asc ''troubleshooting''] = asc ''troubleshooting''
   \<and> select_primary_intent [asc ''troubleshooting'', asc ''safety''] = asc ''troubleshooting''
   \<and> intent_priority (asc ''safety'') = intent_priority (asc ''troubleshooting'')
   \<and> asc ''safety'' < asc ''troubleshooting''"
  by (simp add: select_primary_intent_def sorted_reverse_def intent_priority_def
      INTENT_PRIORITY_def asc_def)


section \<open>Canonical document identifiers are fixed points\<close>

lemma re_sub_delete_class:
  "re_sub rt (Ch k) (\<lambda>gs w. []) s = filter (\<lambda>c. \<not> cls_match rt k c) s"
  by (induction s) (simp_all add: re_sub_def re_match_def)

lemma re_sub_plus_no_match:
  "\<forall>c\<in>set s. \<not> cls_match rt k c \<Longrightarrow> re_sub rt (plus k) f s = s"
  by (induction s) (simp_all add: re_sub_def re_match_def plus_def)

lemma strip_no_space: "\<forall>c\<in>set s. \<not> is_space c \<Longrightarrow> strip s = s"
proof -
  assume a: "\<forall>c\<in>set s. \<not> is_space c"
  have "dropWhile is_space s = s" using a by (cases s) auto
  moreover have "dropWhile is_space (rev s) = rev s" using a by (cases "rev s") (auto dest!: arg_cong [where f = set])
  ultimately show ?thesis by (simp add: strip_def)
qed

lemma doc_id_keep_not_space: "cls_match rt DOC_ID_KEEP c \<Longrightarrow> \<not> is_space c"
  by (auto simp: DOC_ID_KEEP_def is_space_def)

lemma vs_sanitize_eq_rag: "vs_sanitize_doc_id rt s = rag_sanitize_doc_id rt s"
  by (simp add: vs_sanitize_doc_id_def rag_sanitize_doc_id_def)

lemma rag_sanitize_chars: "c \<in> set (rag_sanitize_doc_id rt s) \<Longrightarrow> cls_match rt DOC_ID_KEEP c"
  by (auto simp: rag_sanitize_doc_id_def re_sub_delete_class Let_def split: if_splits)

lemma rag_sanitize_fixed:
  assumes "\<forall>c\<in>set s. cls_match rt DOC_ID_KEEP c" and "str_lower rt s = s"
  shows "rag_sanitize_doc_id rt s = s"
proof (cases "s = []")
  case True
  then show ?thesis by (simp add: rag_sanitize_doc_id_def)
next
  case False
  have ns: "\<forall>c\<in>set s. \<not> is_space c" using assms(1) doc_id_keep_not_space by blast
  then have ns': "\<forall>c\<in>set s. \<not> cls_match rt Space c" by simp
  have "filter (cls_match rt DOC_ID_KEEP) s = s" using assms(1) by (simp add: filter_id_conv)
  then show ?thesis
    using False assms(2)
    by (simp add: rag_sanitize_doc_id_def strip_no_space [OF ns] re_sub_plus_no_match [OF ns']
        re_sub_delete_class)
qed

text \<open>
  C10. Sanitising twice gives the same identifier as sanitising once, and the copies of
  \<open>sanitize_doc_id\<close> in rag.py and vector_store.py compute the same function. The one
  fact used about the interpreter is that \<open>str.lower\<close> leaves a string of lower-case
  ASCII letters, digits, underscores, hyphens and Thai characters unchanged.
\<close>

theorem sanitize_doc_id_idempotent:
  assumes "\<forall>t. (\<forall>c\<in>set t. cls_match rt DOC_ID_KEEP c) \<longrightarrow> str_lower rt t = t"
  shows "rag_sanitize_doc_id rt (rag_sanitize_doc_id rt s) = rag_sanitize_doc_id rt s
         \<and> vs_sanitize_doc_id rt (vs_sanitize_doc_id rt s) = vs_sanitize_doc_id rt s
         \<and> vs_sanitize_doc_id rt s = rag_sanitize_doc_id rt s"
proof -
  let ?d = "rag_sanitize_doc_id rt s"
  have k: "\<forall>c\<in>set ?d. cls_match rt DOC_ID_KEEP c" using rag_sanitize_chars by blast
  then have "str_lower rt ?d = ?d" using assms by blast
  with k have "rag_sanitize_doc_id rt ?d = ?d" by (rule rag_sanitize_fixed)
  then show ?thesis by (simp add: vs_sanitize_eq_rag)
qed

lemma ascii_lower_fixes_doc_id_chars:
  "(\<forall>c\<in>set t. cls_match ascii_rt DOC_ID_KEEP c) \<longrightarrow> str_lower ascii_rt t = t"
  by (induction t) (auto simp: ascii_rt_def ascii_lower_def DOC_ID_KEEP_def)


theorem sanitize_doc_id_idempotent_witness:
  "rag_sanitize_doc_id ascii_rt (asc '' My Doc  (1).PDF '') = asc ''my_doc_1pdf''
   \<and> rag_sanitize_doc_id ascii_rt (rag_sanitize_doc_id ascii_rt (asc '' My Doc  (1).PDF ''))
       = rag_sanitize_doc_id ascii_rt (asc '' My Doc  (1).PDF '')
   \<and> vs_sanitize_doc_id ascii_rt (vs_sanitize_doc_id ascii_rt (asc '' My Doc  (1).PDF ''))
       = vs_sanitize_doc_id ascii_rt (asc '' My Doc  (1).PDF '')
   \<and> vs_sanitize_doc_id ascii_rt (asc '' My Doc  (1).PDF '')
       = rag_sanitize_doc_id ascii_rt (asc '' My Doc  (1).PDF '')"
proof -
  have h: "\<forall>t. (\<forall>c\<in>set t. cls_match ascii_rt DOC_ID_KEEP c) \<longrightarrow> str_lower ascii_rt t = t"
    using ascii_lower_fixes_doc_id_chars by blast
  have v: "rag_sanitize_doc_id ascii_rt (asc '' My Doc  (1).PDF '') = asc ''my_doc_1pdf''"
    by (simp add: rag_sanitize_doc_id_def strip_def asc_def ascii_rt_def ascii_lower_def
        is_space_def re_sub_def re_match_def plus_def DOC_ID_KEEP_def)
  show ?thesis
    using sanitize_doc_id_idempotent [OF h, of "asc '' My Doc  (1).PDF ''"] v by blast
qed


section \<open>The relevance gate\<close>










section \<open>The length limit of chunk contents\<close>












section \<open>Reload and retry after a storage fault\<close>

lemma get_vector_store_cached:
  assumes "get_vector_store w key force_recreate reload = (Inr vectordb, w')"
  shows "cache w' key = Some vectordb \<and> search_log w' = search_log w"
  using assms
  by (auto simp: get_vector_store_def Let_def split: option.splits sum.splits if_splits)

lemma get_vector_store_failed:
  assumes "get_vector_store w key force_recreate reload = (Inl e, w')"
  shows "e = CONNECT_FAILED \<and> search_log w' = search_log w"
  using assms
  by (auto simp: get_vector_store_def Let_def split: option.splits sum.splits if_splits)

lemma get_vector_store_reload_constructs:
  assumes "get_vector_store w key False True = (Inr vectordb, w')"
  shows "constructed w < constructed w'
         \<and> (chroma w (constructed w) = Inr vectordb
              \<or> chroma w (constructed w + 1) = Inr vectordb)"
  using assms
  by (auto simp: get_vector_store_def Let_def split: option.splits sum.splits if_splits)

lemma python_filter_search_world:
  assumes "python_filter_search rt vectordb w query k doc_ids sources doc_types = (r, w')"
  shows "cache w' = cache w \<and> constructed w' = constructed w \<and> chroma w' = chroma w"
  using assms
  by (auto simp: python_filter_search_def similarity_search_def split: sum.splits)

lemma first_search_world:
  assumes "first_search rt vectordb w query k doc_ids sources doc_types = (r, w')"
  shows "cache w' = cache w \<and> constructed w' = constructed w \<and> chroma w' = chroma w"
  using assms python_filter_search_world
  by (fastforce simp: first_search_def similarity_search_def Let_def
      split: sum.splits if_splits option.splits)

text \<open>
  C6. When the search fails with a recognised fault (one of the five message signatures,
  or an instance of \<open>ChromaInternalError\<close>), the cached client is dropped and a new one
  is constructed. If the construction succeeds, exactly one further search is sent, to the
  new client; its filtered result is returned, or the empty list when it fails too. If
  the construction fails, the HTTP 500 error of \<open>get_vector_store\<close> is raised and no
  further search is sent. A fault that is not recognised is raised again.
\<close>

theorem search_similar_reload_and_retry:
  assumes q: "query \<noteq> [] \<and> strip query \<noteq> []"
    and g: "get_vector_store w (dir, coll) False False = (Inr vectordb, w1)"
    and f: "first_search rt vectordb w1 query k doc_ids sources doc_types = (Inl e, w2)"
  shows "(recognized_fault rt e \<longrightarrow>
           (case get_vector_store w2 (dir, coll) False True of
              (Inl e2, w3) \<Rightarrow>
                search_similar rt w query k dir coll doc_ids sources doc_types
                  = (Inl CONNECT_FAILED, w3)
                \<and> search_log w3 = search_log w2
            | (Inr vectordb2, w3) \<Rightarrow>
                constructed w2 < constructed w3
                \<and> (chroma w2 (constructed w2) = Inr vectordb2
                     \<or> chroma w2 (constructed w2 + 1) = Inr vectordb2)
                \<and> search_log (snd (search_similar rt w query k dir coll doc_ids sources doc_types))
                    = search_log w2 @ [(query, k * 10, None)]
                \<and> fst (search_similar rt w query k dir coll doc_ids sources doc_types)
                    = (case vectordb2 query (k * 10) None of
                         Inl final_e \<Rightarrow> Inr []
                       | Inr raw_docs \<Rightarrow>
                           Inr (take k (python_filter_documents rt raw_docs doc_ids
                                          sources doc_types)))))
         \<and> (\<not> recognized_fault rt e \<longrightarrow>
              search_similar rt w query k dir coll doc_ids sources doc_types = (Inl e, w2))"
proof (intro conjI impI)
  assume r: "recognized_fault rt e"
  obtain res w3 where h: "get_vector_store w2 (dir, coll) False True = (res, w3)"
    by (cases "get_vector_store w2 (dir, coll) False True")
  show "case get_vector_store w2 (dir, coll) False True of
              (Inl e2, w3) \<Rightarrow>
                search_similar rt w query k dir coll doc_ids sources doc_types
                  = (Inl CONNECT_FAILED, w3)
                \<and> search_log w3 = search_log w2
            | (Inr vectordb2, w3) \<Rightarrow>
                constructed w2 < constructed w3
                \<and> (chroma w2 (constructed w2) = Inr vectordb2
                     \<or> chroma w2 (constructed w2 + 1) = Inr vectordb2)
                \<and> search_log (snd (search_similar rt w query k dir coll doc_ids sources doc_types))
                    = search_log w2 @ [(query, k * 10, None)]
                \<and> fst (search_similar rt w query k dir coll doc_ids sources doc_types)
                    = (case vectordb2 query (k * 10) None of
                         Inl final_e \<Rightarrow> Inr []
                       | Inr raw_docs \<Rightarrow>
                           Inr (take k (python_filter_documents rt raw_docs doc_ids
                                          sources doc_types)))"
  proof (cases res)
    case (Inl e2)
    with h have "e2 = CONNECT_FAILED \<and> search_log w3 = search_log w2"
      using get_vector_store_failed by blast
    then show ?thesis
      using q g f r h Inl by (simp add: search_similar_def)
  next
    case (Inr vectordb2)
    have c: "constructed w2 < constructed w3
             \<and> (chroma w2 (constructed w2) = Inr vectordb2
                  \<or> chroma w2 (constructed w2 + 1) = Inr vectordb2)"
      using h Inr get_vector_store_reload_constructs by blast
    have l: "search_log w3 = search_log w2"
      using h Inr get_vector_store_cached by blast
    show ?thesis
      using q g f r h Inr c l
      by (auto simp: search_similar_def similarity_search_def split: sum.splits)
  qed
next
  assume "\<not> recognized_fault rt e"
  then show "search_similar rt w query k dir coll doc_ids sources doc_types = (Inl e, w2)"
    using q g f by (simp add: search_similar_def)
qed

lemmas store_defs =
  get_vector_store_def first_search_def python_filter_search_def similarity_search_def
  build_where_filter_def python_filter_documents_def truthy_def elems_def empty_where_def
  recognized_fault_def is_db_corruption_def

lemma sqlite_fault_recognized: "recognized_fault ascii_rt sqlite_fault"
  by (simp add: recognized_fault_def is_db_corruption_def sqlite_fault_def asc_def ascii_rt_def
      ascii_lower_def)

theorem search_similar_rebuild_failure_raises:
  "recognized_fault ascii_rt sqlite_fault
   \<and> fst (first_search ascii_rt broken_db unhealable_world (asc ''q'') 3 None None None)
       = Inl sqlite_fault
   \<and> fst (search_similar ascii_rt unhealable_world (asc ''q'') 3 CHROMA_DIR COLLECTION_NAME
            None None None) = Inl CONNECT_FAILED
   \<and> search_log (snd (search_similar ascii_rt unhealable_world (asc ''q'') 3 CHROMA_DIR
                        COLLECTION_NAME None None None)) = [(asc ''q'', 50, None)]"
proof -
  have q: "asc ''q'' \<noteq> [] \<and> strip (asc ''q'') \<noteq> []"
    by (simp add: asc_def strip_def is_space_def)
  show ?thesis
    using q sqlite_fault_recognized
    by (simp add: search_similar_def store_defs unhealable_world_def broken_db_def
        Let_def del: recognized_fault_def)
qed

theorem search_similar_reload_and_retry_witness:
  "fst (search_similar ascii_rt healing_world (asc ''q'') 3 CHROMA_DIR COLLECTION_NAME
          None None None)
     = Inr [blank_doc\<lparr>page_content := asc ''text'', md_doc_id := Some (asc ''a'')\<rparr>]
   \<and> search_log (snd (search_similar ascii_rt healing_world (asc ''q'') 3 CHROMA_DIR
                        COLLECTION_NAME None None None))
       = [(asc ''q'', 50, None), (asc ''q'', 30, None)]"
proof -
  let ?key = "(CHROMA_DIR, COLLECTION_NAME)"
  let ?w1 = "healing_world\<lparr>constructed := 1, cache := [?key \<mapsto> broken_db]\<rparr>"
  let ?w2 = "?w1\<lparr>search_log := [(asc ''q'', 50, None)]\<rparr>"
  have q: "asc ''q'' \<noteq> [] \<and> strip (asc ''q'') \<noteq> []"
    by (simp add: asc_def strip_def is_space_def)
  have g: "get_vector_store healing_world ?key False False = (Inr broken_db, ?w1)"
    by (simp add: get_vector_store_def healing_world_def)
  have f: "first_search ascii_rt broken_db ?w1 (asc ''q'') 3 None None None
             = (Inl sqlite_fault, ?w2)"
    by (simp add: store_defs healing_world_def broken_db_def)
  have h: "get_vector_store ?w2 ?key False True
             = (Inr healed_db, ?w2\<lparr>cache := [?key \<mapsto> healed_db], constructed := 2\<rparr>)"
    by (simp add: get_vector_store_def healing_world_def)
  show ?thesis
    using search_similar_reload_and_retry [OF q g f] sqlite_fault_recognized h
    by (simp add: healed_db_def python_filter_documents_def truthy_def elems_def
        healing_world_def)
qed


section \<open>Searches restricted to documents\<close>

lemma vs_sanitize_idem:
  assumes "\<forall>t. (\<forall>c\<in>set t. cls_match rt DOC_ID_KEEP c) \<longrightarrow> str_lower rt t = t"
  shows "vs_sanitize_doc_id rt (vs_sanitize_doc_id rt s) = vs_sanitize_doc_id rt s"
proof -
  let ?d = "rag_sanitize_doc_id rt s"
  have k: "\<forall>c\<in>set ?d. cls_match rt DOC_ID_KEEP c" using rag_sanitize_chars by blast
  then have "str_lower rt ?d = ?d" using assms by blast
  with k have "rag_sanitize_doc_id rt ?d = ?d" by (rule rag_sanitize_fixed)
  then show ?thesis by (simp add: vs_sanitize_eq_rag)
qed

lemma python_filter_documents_doc_id:
  assumes "doc \<in> set (python_filter_documents rt raw_docs (Some ds) sources doc_types)"
    and "ds \<noteq> []"
  shows "\<exists>found d. md_doc_id doc = Some found \<and> d \<in> set ds
           \<and> vs_sanitize_doc_id rt found = vs_sanitize_doc_id rt d"
  using assms
  by (auto simp: python_filter_documents_def elems_def Let_def split: option.splits)

lemma build_where_filter_doc_id:
  assumes "\<exists>d \<in> set ds. d \<noteq> []"
    and "build_where_filter rt (Some ds) sources doc_types = Some f"
  shows "\<exists>d \<in> set ds. w_doc_id f = Some (vs_sanitize_doc_id rt d)"
proof -
  let ?ne = "filter (\<lambda>d. d \<noteq> []) ds"
  have ne: "?ne \<noteq> []" using assms(1) by (auto simp: filter_empty_conv)
  then have "hd ?ne \<in> set ?ne" by (rule hd_in_set)
  then have hd: "hd ?ne \<in> set ds" by simp
  have "w_doc_id f = Some (vs_sanitize_doc_id rt (hd ?ne))"
    using assms(2) ne
    by (auto simp: build_where_filter_def truthy_def elems_def Let_def hd_map
        split: if_splits)
  then show ?thesis using hd by blast
qed

lemma first_search_doc_id:
  assumes lower: "\<forall>t. (\<forall>c\<in>set t. cls_match rt DOC_ID_KEEP c) \<longrightarrow> str_lower rt t = t"
    and contract: "equality_filter_contract vectordb"
    and ids: "\<exists>d \<in> set ds. d \<noteq> []"
    and res: "first_search rt vectordb w query k (Some ds) sources doc_types = (Inr docs, w')"
    and doc: "doc \<in> set docs"
  shows "\<exists>found d. md_doc_id doc = Some found \<and> d \<in> set ds
           \<and> vs_sanitize_doc_id rt found = vs_sanitize_doc_id rt d"
proof -
  have ne: "ds \<noteq> []" using ids by auto
  consider
    (native) f where "build_where_filter rt (Some ds) sources doc_types = Some f"
      "vectordb query k (Some f) = Inr docs"
    | (python) raw_docs where
      "docs = take k (python_filter_documents rt raw_docs (Some ds) sources doc_types)"
    using res
    by (auto simp: first_search_def python_filter_search_def similarity_search_def Let_def
        split: if_splits sum.splits option.splits)
  then show ?thesis
  proof cases
    case native
    from build_where_filter_doc_id [OF ids native(1)]
    obtain d where d: "d \<in> set ds" "w_doc_id f = Some (vs_sanitize_doc_id rt d)" by blast
    have "matches_where (Some f) doc"
      using contract native(2) doc by (auto simp: equality_filter_contract_def)
    then have "md_doc_id doc = Some (vs_sanitize_doc_id rt d)"
      using d(2) by (simp add: matches_where_def)
    then show ?thesis using d(1) vs_sanitize_idem [OF lower] by blast
  next
    case python
    then have "doc \<in> set (python_filter_documents rt raw_docs (Some ds) sources doc_types)"
      using doc by (auto dest: in_set_takeD)
    then show ?thesis using ne by (rule python_filter_documents_doc_id)
  qed
qed

text \<open>
  C3. When at least one of the requested identifiers is a non-empty string, every
  document that \<open>search_similar\<close> returns carries an identifier whose canonical form is the
  canonical form of a requested identifier: on the native path (where the client applies
  the equality filter), on the Python-filter path, and on the retry after a storage
  fault. A search that matches no stored chunk of the requested documents therefore
  returns nothing; it is never widened to other documents.
\<close>

theorem search_similar_doc_filter:
  assumes lower: "\<forall>t. (\<forall>c\<in>set t. cls_match rt DOC_ID_KEEP c) \<longrightarrow> str_lower rt t = t"
    and contract: "\<forall>vectordb. (\<exists>key. cache w key = Some vectordb) \<or> (\<exists>n. chroma w n = Inr vectordb)
                     \<longrightarrow> equality_filter_contract vectordb"
    and ids: "\<exists>d \<in> set ds. d \<noteq> []"
    and res: "search_similar rt w query k dir coll (Some ds) sources doc_types = (Inr docs, w')"
    and doc: "doc \<in> set docs"
  shows "\<exists>found d. md_doc_id doc = Some found \<and> d \<in> set ds
           \<and> vs_sanitize_doc_id rt found = vs_sanitize_doc_id rt d"
proof -
  have ne: "ds \<noteq> []" using ids by auto
  obtain vectordb w1 where g: "get_vector_store w (dir, coll) False False = (Inr vectordb, w1)"
    using res by (auto simp: search_similar_def split: if_splits sum.splits prod.splits)
  have c: "equality_filter_contract vectordb"
    using g contract
    by (auto simp: get_vector_store_def Let_def split: option.splits sum.splits if_splits)
  obtain r w2 where f: "first_search rt vectordb w1 query k (Some ds) sources doc_types = (r, w2)"
    by (cases "first_search rt vectordb w1 query k (Some ds) sources doc_types")
  show ?thesis
  proof (cases r)
    case (Inr results)
    then have "docs = results"
      using res g f by (auto simp: search_similar_def split: if_splits)
    then show ?thesis
      using first_search_doc_id [OF lower c ids] f Inr doc by blast
  next
    case (Inl e)
    then have "docs = [] \<or> (\<exists>raw_docs.
        docs = take k (python_filter_documents rt raw_docs (Some ds) sources doc_types))"
      using res g f
      by (auto simp: search_similar_def similarity_search_def
          split: if_splits sum.splits prod.splits)
    then show ?thesis
      using doc python_filter_documents_doc_id [OF _ ne] by (auto dest: in_set_takeD)
  qed
qed

lemma list_db_contract: "equality_filter_contract (list_db stored)"
  by (auto simp: equality_filter_contract_def list_db_def dest: in_set_takeD)

lemmas sanitize_defs =
  vs_sanitize_doc_id_def rag_sanitize_doc_id_def strip_def asc_def ascii_rt_def ascii_lower_def
  is_space_def re_sub_def re_match_def plus_def DOC_ID_KEEP_def

lemma sample_store_doc_ids: "map md_doc_id sample_store = [Some (asc ''a''), Some (asc ''b'')]"
  by (simp add: sample_store_def index_chunk_def sample_chunk_def blank_doc_def sanitize_defs)

lemma sample_store_sources: "map md_source sample_store = [Some (asc ''text''), Some (asc ''text'')]"
  by (simp add: sample_store_def index_chunk_def sample_chunk_def blank_doc_def)

lemma sample_store_doc_types:
  "map md_doc_type sample_store = [Some (asc ''manual''), Some (asc ''manual'')]"
  by (simp add: sample_store_def index_chunk_def sample_chunk_def blank_doc_def)

lemma sample_store_length: "length sample_store = 2"
  by (simp add: sample_store_def)

lemma sample_store_filter_text:
  "filter (matches_where (Some (empty_where\<lparr>w_source := Some (asc ''text'')\<rparr>))) sample_store
     = sample_store"
  by (simp add: sample_store_def index_chunk_def sample_chunk_def blank_doc_def
      matches_where_def empty_where_def)

theorem search_similar_empty_id_not_filtered:
  "fst (search_similar ascii_rt (list_world sample_store) (asc ''q'') 5 CHROMA_DIR
          COLLECTION_NAME (Some [[]]) (Some [asc ''text'']) None) = Inr sample_store
   \<and> map md_doc_id sample_store = [Some (asc ''a''), Some (asc ''b'')]
   \<and> vs_sanitize_doc_id ascii_rt [] = []
   \<and> vs_sanitize_doc_id ascii_rt (asc ''a'') = asc ''a''
   \<and> vs_sanitize_doc_id ascii_rt (asc ''b'') = asc ''b''"
proof -
  have q: "asc ''q'' \<noteq> [] \<and> strip (asc ''q'') \<noteq> []"
    by (simp add: asc_def strip_def is_space_def)
  have n: "sample_store \<noteq> []" using sample_store_length by auto
  have w: "build_where_filter ascii_rt (Some [[]]) (Some [asc ''text'']) None
             = Some (empty_where\<lparr>w_source := Some (asc ''text'')\<rparr>)"
    by (simp add: build_where_filter_def truthy_def elems_def)
  have e: "empty_where\<lparr>w_source := Some (asc ''text'')\<rparr> \<noteq> empty_where"
    by (simp add: empty_where_def asc_def)
  have s: "fst (search_similar ascii_rt (list_world sample_store) (asc ''q'') 5 CHROMA_DIR
          COLLECTION_NAME (Some [[]]) (Some [asc ''text'']) None) = Inr sample_store"
    using q n e sample_store_length
    by (simp add: search_similar_def get_vector_store_def first_search_def w
        similarity_search_def list_world_def list_db_def sample_store_filter_text)
  have v: "vs_sanitize_doc_id ascii_rt [] = [] \<and> vs_sanitize_doc_id ascii_rt (asc ''a'') = asc ''a''
           \<and> vs_sanitize_doc_id ascii_rt (asc ''b'') = asc ''b''"
    by (simp add: sanitize_defs)
  show ?thesis using s v sample_store_doc_ids by simp
qed

theorem search_similar_doc_filter_witness:
  "fst (search_similar ascii_rt (list_world sample_store) (asc ''q'') 5 CHROMA_DIR
          COLLECTION_NAME (Some [asc ''A'']) None None)
     = Inr [index_chunk ascii_rt (sample_chunk (asc ''A'') (asc ''alpha''))]
   \<and> (\<exists>found d. md_doc_id (index_chunk ascii_rt (sample_chunk (asc ''A'') (asc ''alpha'')))
                    = Some found
          \<and> d \<in> set [asc ''A'']
          \<and> vs_sanitize_doc_id ascii_rt found = vs_sanitize_doc_id ascii_rt d)"
proof -
  let ?doc = "index_chunk ascii_rt (sample_chunk (asc ''A'') (asc ''alpha''))"
  let ?call = "search_similar ascii_rt (list_world sample_store) (asc ''q'') 5 CHROMA_DIR
          COLLECTION_NAME (Some [asc ''A'']) None None"
  have q: "asc ''q'' \<noteq> [] \<and> strip (asc ''q'') \<noteq> []"
    by (simp add: asc_def strip_def is_space_def)
  have a: "vs_sanitize_doc_id ascii_rt (asc ''A'') = asc ''a''"
    by (simp add: sanitize_defs)
  have b: "vs_sanitize_doc_id ascii_rt (asc ''b '') = asc ''b''"
    by (simp add: sanitize_defs)
  have ab: "asc ''b'' \<noteq> asc ''a''" by (simp add: asc_def)
  have w: "build_where_filter ascii_rt (Some [asc ''A'']) None None
             = Some (empty_where\<lparr>w_doc_id := Some (asc ''a'')\<rparr>)"
    by (simp add: build_where_filter_def truthy_def elems_def a) (simp add: asc_def)
  have e: "empty_where\<lparr>w_doc_id := Some (asc ''a'')\<rparr> \<noteq> empty_where"
    by (simp add: empty_where_def)
  have f: "filter (matches_where (Some (empty_where\<lparr>w_doc_id := Some (asc ''a'')\<rparr>))) sample_store
             = [?doc]"
    using ab
    by (simp add: sample_store_def index_chunk_def sample_chunk_def blank_doc_def
        matches_where_def empty_where_def a b)
  have s: "fst ?call = Inr [?doc]"
    using q e
    by (simp add: search_similar_def get_vector_store_def first_search_def w
        similarity_search_def list_world_def list_db_def f)
  then have res: "?call = (Inr [?doc], snd ?call)" by (metis prod.collapse)
  have lower: "\<forall>t. (\<forall>c\<in>set t. cls_match ascii_rt DOC_ID_KEEP c) \<longrightarrow> str_lower ascii_rt t = t"
    using ascii_lower_fixes_doc_id_chars by blast
  have contract: "\<forall>vectordb. (\<exists>key. cache (list_world sample_store) key = Some vectordb)
                     \<or> (\<exists>n. chroma (list_world sample_store) n = Inr vectordb)
                     \<longrightarrow> equality_filter_contract vectordb"
    by (auto simp: list_world_def list_db_contract)
  have ids: "\<exists>d \<in> set [asc ''A'']. d \<noteq> []" by (simp add: asc_def)
  have doc: "?doc \<in> set [?doc]" by simp
  show ?thesis
    using search_similar_doc_filter [OF lower contract ids res doc] s by blast
qed


section \<open>The empty query\<close>

text \<open>
  C8. For an empty query, and for a query of whitespace only, the answer is the fixed
  request to type a question, with no sources; the process state is unchanged, so no
  client was looked up or constructed and no search was sent.
\<close>

theorem answer_question_empty_query:
  assumes "strip query = []"
  shows "answer_question rt sv w query doc_ids top_k mode
           = (\<lparr>p_answer = CLARIFICATION, p_sources = [], p_intent = None, p_mode = mode\<rparr>, w)
         \<and> search_log (snd (answer_question rt sv w query doc_ids top_k mode)) = search_log w"
  using assms by (simp add: answer_question_def)

theorem answer_question_empty_query_witness:
  "answer_question ascii_rt no_services (list_world sample_store) (asc ''   '') None 5 (asc ''auto'')
     = (\<lparr>p_answer = CLARIFICATION, p_sources = [], p_intent = None, p_mode = asc ''auto''\<rparr>,
        list_world sample_store)
   \<and> search_log (snd (answer_question ascii_rt no_services (list_world sample_store)
                        (asc ''   '') None 5 (asc ''auto''))) = []"
proof -
  have s: "strip (asc ''   '') = []"
    by (simp add: strip_def asc_def is_space_def)
  show ?thesis
    using answer_question_empty_query [OF s, of ascii_rt no_services "list_world sample_store"
        None 5 "asc ''auto''"]
    by (simp add: list_world_def)
qed

section \<open>Generation with fallback providers\<close>

lemma generate_fallback_answer_first:
  assumes "docs \<noteq> []"
  shows "\<exists>rest. generate_fallback_answer docs msg
                  = fallback_header msg @ snippet 1 (hd docs) @ rest"
proof -
  obtain d ds where d: "docs = d # ds" using assms by (cases docs) auto
  have u: "[1 ..< 5] = [1, 2, 3, 4::nat]" by (simp add: upt_rec)
  show ?thesis
  proof (cases ds)
    case Nil
    then show ?thesis using d u by (simp add: generate_fallback_answer_def)
  next
    case (Cons e es)
    then show ?thesis using d u by (simp add: generate_fallback_answer_def)
  qed
qed

text \<open>
  C7. Let the primary provider give no text for a non-empty list of candidates (it is not
  configured, it raises, or its reply is empty). Then the backup provider is called with
  the same prompt, and a non-empty reply of it becomes the answer (after the substitution
  of table markers). If the backup provider gives no text either, and the mode is not
  "table" or no candidate is a table, the answer is the heading of
  \<open>_generate_fallback_answer\<close> followed by the numbered excerpts of the first four
  candidates, each with its page label, and the mode ends in "+error".
\<close>

theorem generate_answer_fallback:
  assumes docs: "docs \<noteq> []"
    and cx: "cx = build_context rt docs"
    and prompt: "prompt = system_prompt mode (join [10, 10] (context_parts cx))"
    and primary: "invoke (primary_llm sv) prompt query [] = []"
  shows "(invoke (backup_llm sv) prompt query [] \<noteq> [] \<longrightarrow>
            p_answer (generate_answer rt sv query mode intent_label docs)
              = reinject_tables rt (table_map cx) (table_cat_map cx)
                  (invoke (backup_llm sv) prompt query []))
         \<and> (invoke (backup_llm sv) prompt query [] = []
              \<and> \<not> (mode = asc ''table'' \<and> found_table_ids cx \<noteq> []) \<longrightarrow>
              p_answer (generate_answer rt sv query mode intent_label docs)
                = generate_fallback_answer docs (asc ''System Error'')
              \<and> (\<exists>rest. p_answer (generate_answer rt sv query mode intent_label docs)
                           = fallback_header (asc ''System Error'')
                             @ asc ''**'' @ show_nat 1 @ [46, 32, 40, 3627, 3609, 3657, 3634, 32]
                             @ page_label (hd docs) @ asc '')** ''
                             @ strip (map (\<lambda>c. if c = 10 then 32 else c)
                                        (take 400 (page_content (hd docs))))
                             @ asc ''...'' @ rest)
              \<and> p_mode (generate_answer rt sv query mode intent_label docs)
                  = mode @ asc ''+error'')"
proof -
  have t: "generate_text sv prompt query = invoke (backup_llm sv) prompt query []"
    using primary by (simp add: generate_text_def)
  from generate_fallback_answer_first [OF docs, of "asc ''System Error''"]
  obtain rest where r: "generate_fallback_answer docs (asc ''System Error'')
      = fallback_header (asc ''System Error'') @ snippet 1 (hd docs) @ rest" by blast
  show ?thesis
    using t r cx prompt
    by (auto simp: generate_answer_def Let_def snippet_def)
qed

lemma text_is_not_table: "asc ''text'' \<noteq> asc ''table''"
  by (simp add: asc_def)

theorem generate_answer_table_mode_empty:
  "primary_llm no_services = None \<and> backup_llm no_services = None
   \<and> p_answer (generate_answer ascii_rt no_services (asc ''show the table'') (asc ''table'')
                 (asc ''table'') [table_doc (asc ''revenue'') (asc ''<p>t</p>'')]) = []
   \<and> p_mode (generate_answer ascii_rt no_services (asc ''show the table'') (asc ''table'')
               (asc ''table'') [table_doc (asc ''revenue'') (asc ''<p>t</p>'')])
       = asc ''table+qna_llm''"
proof -
  have s: "doc_source ascii_rt (table_doc (asc ''revenue'') (asc ''<p>t</p>'')) = asc ''table''"
    by (simp add: doc_source_def table_doc_def blank_doc_def strip_def asc_def ascii_rt_def
        ascii_lower_def is_space_def)
  have f: "found_table_ids (build_context ascii_rt [table_doc (asc ''revenue'') (asc ''<p>t</p>'')])
             \<noteq> []"
    using s by (simp add: build_context_def context_step_def Let_def)
  have g: "generate_text no_services p' q' = []" for p' q'
    by (simp add: generate_text_def invoke_def no_services_def)
  show ?thesis
    using f g
    by (simp add: generate_answer_def Let_def reinject_tables_def invoke_def no_services_def)
       (simp add: asc_def)
qed

theorem generate_answer_fallback_witness:
  "p_answer (generate_answer ascii_rt no_services (asc ''revenue?'') (asc ''text'') (asc ''text'')
               [table_doc (asc ''revenue'') (asc ''<p>t</p>'')])
     = fallback_header (asc ''System Error'') @ asc ''**1. ('' @ [3627, 3609, 3657, 3634]
       @ asc '' 2)** Revenue 10...''
   \<and> p_mode (generate_answer ascii_rt no_services (asc ''revenue?'') (asc ''text'') (asc ''text'')
               [table_doc (asc ''revenue'') (asc ''<p>t</p>'')]) = asc ''text+error''
   \<and> p_answer (generate_answer ascii_rt
                 (no_services\<lparr>backup_llm := Some (\<lambda>prompt query. Inr (asc ''10''))\<rparr>)
                 (asc ''revenue?'') (asc ''text'') (asc ''text'')
                 [table_doc (asc ''revenue'') (asc ''<p>t</p>'')]) = asc ''10''"
proof -
  let ?docs = "[table_doc (asc ''revenue'') (asc ''<p>t</p>'')]"
  let ?cx = "build_context ascii_rt ?docs"
  let ?prompt = "system_prompt (asc ''text'') (join [10, 10] (context_parts ?cx))"
  let ?sv = "no_services\<lparr>backup_llm := Some (\<lambda>prompt query. Inr (asc ''10''))\<rparr>"
  have d: "?docs \<noteq> []" by simp
  have p1: "invoke (primary_llm no_services) ?prompt (asc ''revenue?'') [] = []"
    by (simp add: invoke_def no_services_def)
  have b1: "invoke (backup_llm no_services) ?prompt (asc ''revenue?'') [] = []"
    by (simp add: invoke_def no_services_def)
  have p2: "invoke (primary_llm ?sv) ?prompt (asc ''revenue?'') [] = []"
    by (simp add: invoke_def no_services_def)
  have b2: "invoke (backup_llm ?sv) ?prompt (asc ''revenue?'') [] = asc ''10''"
    by (simp add: invoke_def)
  have ne: "asc ''10'' \<noteq> []" by (simp add: asc_def)
  have f: "generate_fallback_answer ?docs (asc ''System Error'')
             = fallback_header (asc ''System Error'') @ asc ''**1. ('' @ [3627, 3609, 3657, 3634]
               @ asc '' 2)** Revenue 10...''"
    by (simp add: generate_fallback_answer_def snippet_def page_label_def show_page_def
        show_int_def table_doc_def blank_doc_def strip_def is_space_def upt_rec asc_def)
  have r: "reinject_tables ascii_rt (table_map ?cx) (table_cat_map ?cx) (asc ''10'') = asc ''10''"
    by (simp add: reinject_tables_def re_sub_def re_match_def pattern_id_def pattern_cat_def
        SHOW_WORDS_def case_variants_def asc_def)
  from generate_answer_fallback [OF d refl refl p1, where intent_label = "asc ''text''"] b1 text_is_not_table f
  have 1: "p_answer (generate_answer ascii_rt no_services (asc ''revenue?'') (asc ''text'')
                      (asc ''text'') ?docs)
             = fallback_header (asc ''System Error'') @ asc ''**1. ('' @ [3627, 3609, 3657, 3634]
               @ asc '' 2)** Revenue 10...''
           \<and> p_mode (generate_answer ascii_rt no_services (asc ''revenue?'') (asc ''text'')
                      (asc ''text'') ?docs) = asc ''text'' @ asc ''+error''"
    by simp
  from generate_answer_fallback [OF d refl refl p2, where intent_label = "asc ''text''"] b2 ne r
  have 2: "p_answer (generate_answer ascii_rt ?sv (asc ''revenue?'') (asc ''text'') (asc ''text'')
                      ?docs) = asc ''10''"
    by simp
  show ?thesis using 1 2 by (simp add: asc_def)
qed

section \<open>Table markers in the generated text\<close>

lemma two_tables_maps:
  "table_map (build_context ascii_rt
                [table_doc (asc ''revenue'') (asc ''<p>a</p>''),
                 table_doc (asc ''cost'') (asc ''<p>b</p>'')])
     = [(asc ''1'', asc ''<p>a</p>''), (asc ''2'', asc ''<p>b</p>'')]
   \<and> table_cat_map (build_context ascii_rt
                [table_doc (asc ''revenue'') (asc ''<p>a</p>''),
                 table_doc (asc ''cost'') (asc ''<p>b</p>'')])
     = [(asc ''cat:revenue'', asc ''<p>a</p>''), (asc ''cat:cost'', asc ''<p>b</p>'')]"
  by (simp add: build_context_def context_step_def Let_def doc_source_def table_doc_def
      blank_doc_def table_html_def sanitize_html_content_def RE_SCRIPT_def RE_JS_EVENT_def
      RE_JS_PROTO_def re_sub_def re_match_def plus_def case_variants_def add_if_absent_def
      strip_def asc_def ascii_rt_def ascii_lower_def is_space_def upt_rec)

lemmas marker_defs =
  reinject_tables_def replace_match_def replace_cat_def pattern_id_def pattern_cat_def
  SHOW_WORDS_def table_div_def before_first_def re_sub_def re_match_def plus_def
  case_variants_def strip_def asc_def ascii_rt_def ascii_lower_def ascii_digit_def is_space_def

text \<open>
  C2. With two tables stored under the codes 1 and 2, the marker \<open>[SHOW_TABLE:TBL_2]\<close> in
  the generated text is replaced by the stored table, and the marker \<open>[SHOW_TABLE:TBL_7]\<close>,
  which resolves to no table, is returned to the caller as it was generated: the
  replacement function returns the matched text when nothing resolves.
\<close>

theorem unresolved_marker_left_in_answer:
  "reinject_tables ascii_rt [(asc ''1'', asc ''<p>a</p>''), (asc ''2'', asc ''<p>b</p>'')]
     [(asc ''cat:revenue'', asc ''<p>a</p>''), (asc ''cat:cost'', asc ''<p>b</p>'')]
     (asc ''[SHOW_TABLE:TBL_2] [SHOW_TABLE:TBL_7]'')
     = table_div (asc ''<p>b</p>'') @ asc '' [SHOW_TABLE:TBL_7]''
   \<and> p_answer (generate_answer ascii_rt
                 (no_services\<lparr>primary_llm :=
                     Some (\<lambda>prompt query. Inr (asc ''[SHOW_TABLE:TBL_2] [SHOW_TABLE:TBL_7]''))\<rparr>)
                 (asc ''revenue?'') (asc ''text'') (asc ''text'')
                 [table_doc (asc ''revenue'') (asc ''<p>a</p>''),
                  table_doc (asc ''cost'') (asc ''<p>b</p>'')])
       = table_div (asc ''<p>b</p>'') @ asc '' [SHOW_TABLE:TBL_7]''"
proof -
  have r: "reinject_tables ascii_rt [(asc ''1'', asc ''<p>a</p>''), (asc ''2'', asc ''<p>b</p>'')]
     [(asc ''cat:revenue'', asc ''<p>a</p>''), (asc ''cat:cost'', asc ''<p>b</p>'')]
     (asc ''[SHOW_TABLE:TBL_2] [SHOW_TABLE:TBL_7]'')
     = table_div (asc ''<p>b</p>'') @ asc '' [SHOW_TABLE:TBL_7]''"
    by (simp add: marker_defs)
  have g: "generate_text (no_services\<lparr>primary_llm :=
                     Some (\<lambda>prompt query. Inr (asc ''[SHOW_TABLE:TBL_2] [SHOW_TABLE:TBL_7]''))\<rparr>)
             p q = asc ''[SHOW_TABLE:TBL_2] [SHOW_TABLE:TBL_7]''" for p q
    by (simp add: generate_text_def invoke_def) (simp add: asc_def)
  have n: "asc ''[SHOW_TABLE:TBL_2] [SHOW_TABLE:TBL_7]'' \<noteq> []" by (simp add: asc_def)
  show ?thesis
    using r g n two_tables_maps by (simp add: generate_answer_def Let_def)
qed


theorem unresolved_marker_left_in_answer_witness:
  "contains (asc ''[SHOW_TABLE:TBL_7]'')
     (p_answer (generate_answer ascii_rt
                 (no_services\<lparr>primary_llm :=
                     Some (\<lambda>prompt query. Inr (asc ''[SHOW_TABLE:TBL_2] [SHOW_TABLE:TBL_7]''))\<rparr>)
                 (asc ''revenue?'') (asc ''text'') (asc ''text'')
                 [table_doc (asc ''revenue'') (asc ''<p>a</p>''),
                  table_doc (asc ''cost'') (asc ''<p>b</p>'')]))"
  using unresolved_marker_left_in_answer by (simp add: table_div_def asc_def)


section \<open>Deterministic and duplicate-free text chunks\<close>

lemma close_group_order:
  assumes "\<forall>xs. set (order xs) = set xs"
  shows "close_group order st = close_group (\<lambda>xs. xs) st"
  using assms select_primary_intent_set [of "order (current_intent_set st)" "current_intent_set st"]
  by (simp add: close_group_def)

lemma group_step_order:
  assumes "\<forall>xs. set (order xs) = set xs"
  shows "group_step rt order st block = group_step rt (\<lambda>xs. xs) st block"
  unfolding group_step_def close_group_order [OF assms] by (rule refl)

lemma group_blocks_semantically_order:
  assumes "\<forall>xs. set (order xs) = set xs"
  shows "group_blocks_semantically rt order blocks
           = group_blocks_semantically rt (\<lambda>xs. xs) blocks"
proof -
  have "group_step rt order = group_step rt (\<lambda>xs. xs)"
    using group_step_order [OF assms] by (intro ext)
  then show ?thesis
    by (simp add: group_blocks_semantically_def Let_def close_group_order [OF assms])
qed

lemma chunks_of_groups_fresh:
  assumes "c \<in> set (chunks_of_groups rt md5 doc_type seen grps)"
  shows "md5 (chunk_fingerprint c) \<notin> set seen"
  using assms
proof (induction grps arbitrary: seen)
  case Nil
  then show ?case by simp
next
  case (Cons g grps)
  obtain content meta where f: "format_chunk_content rt g = (content, meta)"
    by (cases "format_chunk_content rt g")
  let ?h = "md5 (semantic_fingerprint content meta)"
  from Cons.prems f
  consider "c \<in> set (chunks_of_groups rt md5 doc_type seen grps)"
    | "?h \<notin> set seen" "c \<in> set (chunks_of_groups rt md5 doc_type (?h # seen) grps)"
    | "?h \<notin> set seen" "c_content c = content" "c_metadata c = TextMeta meta"
    by (auto simp: Let_def split: if_splits)
  then show ?case
  proof cases
    case 1
    then show ?thesis by (rule Cons.IH)
  next
    case 2
    then show ?thesis using Cons.IH [of "?h # seen"] by simp
  next
    case 3
    then show ?thesis by (simp add: chunk_fingerprint_def)
  qed
qed

lemma chunks_of_groups_distinct:
  "distinct (map (\<lambda>c. md5 (chunk_fingerprint c)) (chunks_of_groups rt md5 doc_type seen grps))"
proof (induction grps arbitrary: seen)
  case Nil
  then show ?case by simp
next
  case (Cons g grps)
  obtain content meta where f: "format_chunk_content rt g = (content, meta)"
    by (cases "format_chunk_content rt g")
  let ?h = "md5 (semantic_fingerprint content meta)"
  have fresh: "\<forall>c \<in> set (chunks_of_groups rt md5 doc_type (?h # seen) grps).
                 md5 (chunk_fingerprint c) \<noteq> ?h"
    using chunks_of_groups_fresh [of _ rt md5 doc_type "?h # seen" grps] by auto
  show ?case
    using f Cons.IH [of seen] Cons.IH [of "?h # seen"] fresh
    by (auto simp: Let_def chunk_fingerprint_def)
qed

lemma chunks_of_groups_covers:
  assumes "grp \<in> set grps"
    and "strip (fst (format_chunk_content rt grp)) \<noteq> []"
    and "md5 (group_fingerprint rt grp) \<notin> set seen"
  shows "\<exists>c \<in> set (chunks_of_groups rt md5 doc_type seen grps).
           md5 (chunk_fingerprint c) = md5 (group_fingerprint rt grp)"
  using assms
proof (induction grps arbitrary: seen)
  case Nil
  then show ?case by simp
next
  case (Cons g grps)
  obtain content meta where f: "format_chunk_content rt g = (content, meta)"
    by (cases "format_chunk_content rt g")
  let ?h = "md5 (semantic_fingerprint content meta)"
  let ?t = "md5 (group_fingerprint rt grp)"
  show ?case
  proof (cases "strip content \<noteq> [] \<and> ?h \<notin> set seen")
    case True
    note emitted = this
    show ?thesis
    proof (cases "?t = ?h")
      case True
      then show ?thesis using f emitted by (auto simp: Let_def chunk_fingerprint_def)
    next
      case False
      then have "grp \<noteq> g" using f by (auto simp: group_fingerprint_def)
      then have m: "grp \<in> set grps" using Cons.prems(1) by simp
      have "?t \<notin> set (?h # seen)" using False Cons.prems(3) by simp
      from Cons.IH [OF m Cons.prems(2) this]
      show ?thesis using f emitted by (auto simp: Let_def)
    qed
  next
    case False
    then have "grp \<noteq> g" using f Cons.prems(2,3) by (auto simp: group_fingerprint_def)
    then have m: "grp \<in> set grps" using Cons.prems(1) by simp
    from Cons.IH [OF m Cons.prems(2,3)]
    show ?thesis using f False by (auto simp: Let_def)
  qed
qed

lemma distinct_map_filter_le_1:
  assumes "distinct (map f xs)"
  shows "length (filter (\<lambda>x. f x = v) xs) \<le> 1"
  using assms
proof (induction xs)
  case Nil
  then show ?case by simp
next
  case (Cons a xs)
  show ?case
  proof (cases "f a = v")
    case True
    have "f a \<notin> f ` set xs" using Cons.prems by simp
    then have "\<forall>x \<in> set xs. f x \<noteq> v" using True by (metis image_eqI)
    then have "filter (\<lambda>x. f x = v) xs = []" by (simp add: filter_empty_conv)
    then show ?thesis using True by simp
  next
    case False
    then show ?thesis using Cons by simp
  qed
qed

lemma exists_filter_ge_1:
  assumes "\<exists>x \<in> set xs. f x = v"
  shows "1 \<le> length (filter (\<lambda>x. f x = v) xs)"
proof -
  have "filter (\<lambda>x. f x = v) xs \<noteq> []" using assms by (auto simp: filter_empty_conv)
  then show ?thesis by (cases "filter (\<lambda>x. f x = v) xs") auto
qed

text \<open>
  C9. The chunk list is a function of the blocks: the order in which the interpreter
  enumerates \<open>current_intent_set\<close> (the parameter \<open>order\<close>, which differs between two runs)
  does not change it, so two runs on the same blocks give the same chunks, content hashes
  and identifiers. No two chunks of a build have the same content hash, and every group
  with a non-blank content is represented by exactly one chunk with the hash of its
  fingerprint (content, primary intent, section); two groups with the same fingerprint
  therefore yield one chunk.
\<close>

theorem text_items_to_chunks_deterministic:
  assumes "\<forall>xs. set (order1 xs) = set xs" and "\<forall>xs. set (order2 xs) = set xs"
  shows "text_items_to_chunks rt md5 order1 texts = text_items_to_chunks rt md5 order2 texts
         \<and> distinct (map (\<lambda>c. md5 (chunk_fingerprint c))
                       (text_items_to_chunks rt md5 order1 texts))
         \<and> (\<forall>grp \<in> set (group_blocks_semantically rt order1
                            (filter (\<lambda>t. has_meaningful_text rt (tb_content t)) texts)).
               strip (fst (format_chunk_content rt grp)) \<noteq> [] \<longrightarrow>
               length (filter (\<lambda>c. md5 (chunk_fingerprint c) = md5 (group_fingerprint rt grp))
                         (text_items_to_chunks rt md5 order1 texts)) = 1)"
proof (intro conjI ballI impI)
  show "text_items_to_chunks rt md5 order1 texts = text_items_to_chunks rt md5 order2 texts"
    by (simp add: text_items_to_chunks_def Let_def group_blocks_semantically_order [OF assms(1)]
        group_blocks_semantically_order [OF assms(2)])
next
  show "distinct (map (\<lambda>c. md5 (chunk_fingerprint c)) (text_items_to_chunks rt md5 order1 texts))"
    by (simp add: text_items_to_chunks_def Let_def chunks_of_groups_distinct)
next
  fix grp
  let ?valid = "filter (\<lambda>t. has_meaningful_text rt (tb_content t)) texts"
  let ?chunks = "text_items_to_chunks rt md5 order1 texts"
  assume g: "grp \<in> set (group_blocks_semantically rt order1 ?valid)"
    and b: "strip (fst (format_chunk_content rt grp)) \<noteq> []"
  have ne: "?valid \<noteq> []"
    using g by (auto simp: group_blocks_semantically_def)
  have d: "distinct (map (\<lambda>c. md5 (chunk_fingerprint c)) ?chunks)"
    by (simp add: text_items_to_chunks_def Let_def chunks_of_groups_distinct)
  have "\<exists>c \<in> set ?chunks. md5 (chunk_fingerprint c) = md5 (group_fingerprint rt grp)"
    using chunks_of_groups_covers [OF g b, of md5 "[]"] ne
    by (simp add: text_items_to_chunks_def Let_def)
  then have "1 \<le> length (filter (\<lambda>c. md5 (chunk_fingerprint c) = md5 (group_fingerprint rt grp))
                            ?chunks)"
    by (rule exists_filter_ge_1)
  moreover have "length (filter (\<lambda>c. md5 (chunk_fingerprint c) = md5 (group_fingerprint rt grp))
                           ?chunks) \<le> 1"
    using d by (rule distinct_map_filter_le_1)
  ultimately show "length (filter (\<lambda>c. md5 (chunk_fingerprint c) = md5 (group_fingerprint rt grp))
                             ?chunks) = 1"
    by simp
qed


lemmas text_eval_defs =
  extract_intent_and_entities_def normalize_whitespace_def has_meaningful_text_def
  select_primary_intent_def sorted_reverse_def intent_priority_def INTENT_PRIORITY_def
  KW_INSTALL_def KW_TROUBLESHOOT_def KW_SAFETY_def KW_REF_def KW_FINANCE_def KW_IDENTITY_def
  RE_QNA_def RE_ZERO_WIDTH_def RE_MULTI_NEWLINE_def RE_MULTI_SPACE_def RE_MEANINGFUL_def
  MEANINGFUL_CHAR_def MAX_INTENTS_def re_sub_def re_match_def case_variants_def strip_def
  asc_def ascii_rt_def ascii_lower_def ascii_word_def is_space_def Let_def

lemma demo_normalize:
  "normalize_whitespace ascii_rt (asc ''hot item'') = asc ''hot item''
   \<and> normalize_whitespace ascii_rt (asc ''cost 10'') = asc ''cost 10''"
  by (simp add: text_eval_defs)

lemma demo_meaningful:
  "has_meaningful_text ascii_rt (asc ''hot item'') \<and> has_meaningful_text ascii_rt (asc ''cost 10'')"
  by (simp add: text_eval_defs)

lemma demo_qna:
  "\<not> re_search ascii_rt RE_QNA (asc ''hot item'') \<and> \<not> re_search ascii_rt RE_QNA (asc ''cost 10'')"
  by (simp add: text_eval_defs)

lemma demo_intent_a:
  "extract_intent_and_entities ascii_rt (asc ''hot item'') (asc ''A'')
     = \<lparr>intent = [asc ''general''], primary_intent = asc ''general''\<rparr>"
  by (simp add: text_eval_defs)

lemma demo_intent_b:
  "extract_intent_and_entities ascii_rt (asc ''cost 10'') (asc ''B'')
     = \<lparr>intent = [asc ''financial''], primary_intent = asc ''financial''\<rparr>"
  by (simp add: text_eval_defs)


lemma demo_strings:
  "asc ''A'' \<noteq> asc ''B'' \<and> asc ''A'' \<noteq> [] \<and> asc ''B'' \<noteq> []
   \<and> asc ''hot item'' \<noteq> [] \<and> asc ''cost 10'' \<noteq> []
   \<and> length (asc ''hot item'') = 8 \<and> length (asc ''cost 10'') = 7
   \<and> length (asc ''A'') = 1 \<and> length (asc ''B'') = 1
   \<and> asc ''general'' \<noteq> asc ''financial''
   \<and> \<not> high_priority (asc ''general'') \<and> \<not> high_priority (asc ''financial'')
   \<and> select_primary_intent [asc ''general''] = asc ''general''
   \<and> select_primary_intent [asc ''financial''] = asc ''financial''"
  by (simp add: asc_def high_priority_def select_primary_intent_def sorted_reverse_def)

lemma demo_groups:
  "group_blocks_semantically ascii_rt (\<lambda>xs. xs) demo_texts
     = [\<lparr>g_blocks = [demo_block (asc ''A'') (asc ''hot item'')], g_section = Some (asc ''A''),
         g_primary_intent = asc ''general''\<rparr>,
        \<lparr>g_blocks = [demo_block (asc ''B'') (asc ''cost 10'')], g_section = Some (asc ''B''),
         g_primary_intent = asc ''financial''\<rparr>,
        \<lparr>g_blocks = [demo_block (asc ''A'') (asc ''hot item'')], g_section = Some (asc ''A''),
         g_primary_intent = asc ''general''\<rparr>]"
  using demo_strings
  by (simp add: group_blocks_semantically_def demo_texts_def group_step_def close_group_def
      block_meta_def demo_block_def or_else_def demo_normalize demo_meaningful demo_qna
      demo_intent_a demo_intent_b MAX_CHUNK_CHARS_def Let_def)


lemma demo_format_a:
  "format_chunk_content ascii_rt
     \<lparr>g_blocks = [demo_block (asc ''A'') (asc ''hot item'')], g_section = Some (asc ''A''),
      g_primary_intent = asc ''general''\<rparr>
   = (asc ''hot item'',
      \<lparr>tm_doc_id = asc ''doc'', tm_page = Some 1, tm_pages = [1], tm_section = asc ''A'',
       tm_block_types = [asc ''normal''], tm_dominant_block_type = asc ''normal'',
       tm_char_count = 8, tm_intent = [asc ''general''], tm_primary_intent = asc ''general''\<rparr>)"
proof -
  have l: "str_lower ascii_rt (asc ''normal'') = asc ''normal''"
    by (simp add: ascii_rt_def ascii_lower_def asc_def)
  have n: "asc ''normal'' \<noteq> asc ''warning'' \<and> asc ''normal'' \<noteq> asc ''note''
           \<and> asc ''normal'' \<noteq> asc ''step'' \<and> asc ''normal'' \<noteq> []
           \<and> asc ''safety'' \<noteq> asc ''general'' \<and> asc ''troubleshooting'' \<noteq> asc ''general''"
    by (simp add: asc_def)
  show ?thesis
    using demo_strings n
    by (simp add: format_chunk_content_def assembled_content_def group_meta_def
        display_section_def block_type_def block_parts_def truncate_content_def
        demo_block_def or_else_def demo_intent_a l MAX_CHUNK_CHARS_def Let_def)
qed

lemma demo_format_b:
  "format_chunk_content ascii_rt
     \<lparr>g_blocks = [demo_block (asc ''B'') (asc ''cost 10'')], g_section = Some (asc ''B''),
      g_primary_intent = asc ''financial''\<rparr>
   = (asc ''cost 10'',
      \<lparr>tm_doc_id = asc ''doc'', tm_page = Some 1, tm_pages = [1], tm_section = asc ''B'',
       tm_block_types = [asc ''normal''], tm_dominant_block_type = asc ''normal'',
       tm_char_count = 7, tm_intent = [asc ''financial''],
       tm_primary_intent = asc ''financial''\<rparr>)"
proof -
  have l: "str_lower ascii_rt (asc ''normal'') = asc ''normal''"
    by (simp add: ascii_rt_def ascii_lower_def asc_def)
  have n: "asc ''normal'' \<noteq> asc ''warning'' \<and> asc ''normal'' \<noteq> asc ''note''
           \<and> asc ''normal'' \<noteq> asc ''step'' \<and> asc ''normal'' \<noteq> []
           \<and> asc ''safety'' \<noteq> asc ''financial'' \<and> asc ''troubleshooting'' \<noteq> asc ''financial''"
    by (simp add: asc_def)
  show ?thesis
    using demo_strings n
    by (simp add: format_chunk_content_def assembled_content_def group_meta_def
        display_section_def block_type_def block_parts_def truncate_content_def
        demo_block_def or_else_def demo_intent_b l MAX_CHUNK_CHARS_def Let_def)
qed

lemma demo_chunk_contents:
  "map c_content (text_items_to_chunks ascii_rt (\<lambda>s. s) (\<lambda>xs. xs) demo_texts)
     = [asc ''hot item'', asc ''cost 10'']
   \<and> map c_id (text_items_to_chunks ascii_rt (\<lambda>s. s) (\<lambda>xs. xs) demo_texts)
     = [asc ''doc::hot item'', asc ''doc::cost 10|'']"
proof -
  have v: "filter (\<lambda>t. has_meaningful_text ascii_rt (tb_content t)) demo_texts = demo_texts"
    using demo_meaningful by (simp add: demo_texts_def demo_block_def)
  have ne: "demo_texts \<noteq> []" by (simp add: demo_texts_def)
  have s: "strip (asc ''hot item'') \<noteq> [] \<and> strip (asc ''cost 10'') \<noteq> []"
    by (simp add: strip_def asc_def is_space_def)
  have f: "asc ''hot item'' @ asc ''|'' @ asc ''general'' @ asc ''|'' @ asc ''A''
             \<noteq> asc ''cost 10'' @ asc ''|'' @ asc ''financial'' @ asc ''|'' @ asc ''B''"
    by (simp add: asc_def)
  have i: "asc ''doc'' @ asc ''::'' @ take 8 (asc ''hot item'' @ asc ''|'' @ asc ''general'' @ asc ''|'' @ asc ''A'')
             = asc ''doc::hot item''
           \<and> asc ''doc'' @ asc ''::'' @ take 8 (asc ''cost 10'' @ asc ''|'' @ asc ''financial'' @ asc ''|'' @ asc ''B'')
             = asc ''doc::cost 10|''"
    by (simp add: asc_def)
  show ?thesis
    using v ne s f i
    by (simp add: text_items_to_chunks_def demo_groups demo_format_a demo_format_b
        semantic_fingerprint_def Let_def)
qed

theorem text_items_to_chunks_deterministic_witness:
  "text_items_to_chunks ascii_rt (\<lambda>s. s) (\<lambda>xs. xs) demo_texts
     = text_items_to_chunks ascii_rt (\<lambda>s. s) rev demo_texts
   \<and> map c_content (text_items_to_chunks ascii_rt (\<lambda>s. s) (\<lambda>xs. xs) demo_texts)
       = [asc ''hot item'', asc ''cost 10'']
   \<and> length (filter (\<lambda>c. chunk_fingerprint c = asc ''hot item|general|A'')
               (text_items_to_chunks ascii_rt (\<lambda>s. s) (\<lambda>xs. xs) demo_texts)) = 1"
proof -
  let ?g = "\<lparr>g_blocks = [demo_block (asc ''A'') (asc ''hot item'')], g_section = Some (asc ''A''),
            g_primary_intent = asc ''general''\<rparr>"
  let ?valid = "filter (\<lambda>t. has_meaningful_text ascii_rt (tb_content t)) demo_texts"
  have o1: "\<forall>xs::str list. set ((\<lambda>xs. xs) xs) = set xs" by simp
  have o2: "\<forall>xs::str list. set (rev xs) = set xs" by simp
  have v: "?valid = demo_texts"
    using demo_meaningful by (simp add: demo_texts_def demo_block_def)
  have m: "?g \<in> set (group_blocks_semantically ascii_rt (\<lambda>xs. xs) ?valid)"
    by (simp add: v demo_groups)
  have b: "strip (fst (format_chunk_content ascii_rt ?g)) \<noteq> []"
    by (simp add: demo_format_a) (simp add: strip_def asc_def is_space_def)
  have f: "group_fingerprint ascii_rt ?g = asc ''hot item|general|A''"
    by (simp add: group_fingerprint_def demo_format_a semantic_fingerprint_def) (simp add: asc_def)
  from text_items_to_chunks_deterministic [OF o1 o2, of ascii_rt "\<lambda>s. s" demo_texts] m b f
  show ?thesis using demo_chunk_contents by auto
qed

end
